theory Spec2Isabelle
  imports Complex_Main "HOL-Library.Word" "HOL-Library.Monad_Syntax"
begin

section \<open>Values of the programs\<close>

text \<open>
  Both programs (\<^verbatim>\<open>scratch/edgecloud_Stream2.cc\<close> and \<^verbatim>\<open>scratch/wifi_p2p.cc\<close>) are a
  single \<^verbatim>\<open>main\<close> that drives the ns-3 framework. Their own data are \<^verbatim>\<open>uint32_t\<close>
  counters, modelled as 32-bit words (addition and multiplication wrap), and
  the literal simulated times, modelled as exact rationals.
\<close>

type_synonym u32 = "32 word"

datatype Time = Seconds rat

datatype Vector = Vector rat rat rat

section \<open>The framework, as far as the programs observe it\<close>

text \<open>
  Modelled from the spec: the classes of the ns-3 framework that the programs call
  (\<^verbatim>\<open>NodeContainer\<close>, \<^verbatim>\<open>NodeList\<close>, the device, address and application helpers, the
  \<^verbatim>\<open>Simulator\<close>) are not part of the repository. The spec describes them as an object graph
  that the framework owns, built by the programs' calls, with a node list whose bounds
  nothing checks. The model keeps the part of that graph which the two programs read back
  or index into (the global node list, in order of creation, and the installed
  applications) and the list of the calls made, in program order. Calls that only set
  attributes of a helper, enable logging, or configure mobility models and wifi channels
  are left out: they take no argument computed from the command line and return nothing
  the programs use.

  A node is identified by its index in the global node list (its id); the list keeps, for
  every node, the container whose \<^verbatim>\<open>Create\<close> made it: the backbone container
  (\<^verbatim>\<open>backboneNodes\<close>, \<^verbatim>\<open>backbone\<close>), the wired branch container of outer iteration \<open>i\<close>
  (\<^verbatim>\<open>p2pNodes\<close>, \<^verbatim>\<open>newLanNodes\<close>) or the station container of outer iteration \<open>i\<close>
  (\<^verbatim>\<open>stas\<close>).
\<close>

datatype origin = in_backbone | in_branch u32 | in_stas u32

type_synonym NodeContainer = "nat list"

text \<open>The helper that installed a set of net devices, and the nodes that carry them.\<close>

datatype link = CsmaHelper | AdhocWifi | PointToPointHelper | InfraWifi

type_synonym NetDeviceContainer = "link \<times> nat list"

text \<open>\<^verbatim>\<open>node->GetObject<Ipv4> ()->GetAddress (i, j).GetLocal ()\<close>, kept symbolic.\<close>

datatype Ipv4Address = GetAddress nat nat nat

datatype helper = UdpEchoServerHelper nat | UdpEchoClientHelper Ipv4Address nat

datatype AttributeValue = UintegerValue nat | TimeValue Time

record application =
  helper :: helper
  attributes :: "(string \<times> AttributeValue) list"
  node :: nat
  startTime :: "Time option"
  stopTime :: "Time option"

type_synonym ApplicationContainer = "nat list"

text \<open>The local variable that receives the result of a \<^verbatim>\<open>NodeList::GetNode\<close>.\<close>

datatype receiver = source | sink

datatype call =
    SetBase string string
  | Assign NetDeviceContainer
  | NewNetwork
  | Add Vector
  | PopulateRoutingTables
  | NodeList_GetNode receiver u32
  | EnablePcap nat
  | EnablePcapDevices NetDeviceContainer
  | EnablePcapAll string
  | CreateFileStream string
  | AnimationInterface string
  | Simulator_Stop "Time option"
  | Simulator_Run
  | Simulator_Destroy

record sim =
  NodeList :: "origin list"
  applications :: "application list"
  calls :: "call list"

definition initial :: sim where
  "initial = \<lparr>NodeList = [], applications = [], calls = []\<rparr>"

definition call :: "call \<Rightarrow> sim \<Rightarrow> sim" where
  "call c s = s\<lparr>calls := calls s @ [c]\<rparr>"

text \<open>
  \<^verbatim>\<open>NodeContainer::Create (n)\<close> on a fresh container: \<open>n\<close> new nodes are appended to the
  global node list and the container holds their ids.
\<close>

definition Create :: "origin \<Rightarrow> u32 \<Rightarrow> sim \<Rightarrow> NodeContainer \<times> sim" where
  "Create c n s =
     ([length (NodeList s) ..< length (NodeList s) + unat n],
      s\<lparr>NodeList := NodeList s @ replicate (unat n) c\<rparr>)"

text \<open>\<^verbatim>\<open>NodeContainer::GetN\<close> returns the size of the container as a \<^verbatim>\<open>uint32_t\<close>.\<close>

definition GetN :: "NodeContainer \<Rightarrow> u32" where
  "GetN c = word_of_nat (length c)"

text \<open>
  Modelled from the spec: \<^verbatim>\<open>NodeContainer::Get\<close> and \<^verbatim>\<open>NodeList::GetNode\<close> return the node at
  an index. The spec describes their failure as an out-of-range container access at a
  framework call site, which nothing in the programs handles; the model returns \<open>None\<close>
  there and the program stops. A successful \<^verbatim>\<open>NodeList::GetNode\<close> is recorded among the calls.
\<close>

definition Get :: "NodeContainer \<Rightarrow> u32 \<Rightarrow> nat option" where
  "Get c i = (if unat i < length c then Some (c ! unat i) else None)"

definition GetNode :: "receiver \<Rightarrow> u32 \<Rightarrow> sim \<Rightarrow> (nat \<times> sim) option" where
  "GetNode r n s =
     (if unat n < length (NodeList s) then Some (unat n, call (NodeList_GetNode r n) s)
      else None)"

text \<open>
  \<^verbatim>\<open>helper.Install (node)\<close> creates one application on the node and returns a container
  holding it; \<^verbatim>\<open>Start\<close> and \<^verbatim>\<open>Stop\<close> on a container schedule every application in it.
\<close>

definition Install ::
  "helper \<Rightarrow> (string \<times> AttributeValue) list \<Rightarrow> nat \<Rightarrow> sim \<Rightarrow> ApplicationContainer \<times> sim" where
  "Install h attrs n s =
     ([length (applications s)],
      s\<lparr>applications := applications s @
           [\<lparr>helper = h, attributes = attrs, node = n, startTime = None, stopTime = None\<rparr>]\<rparr>)"

definition Start :: "ApplicationContainer \<Rightarrow> Time \<Rightarrow> sim \<Rightarrow> sim" where
  "Start c t s =
     s\<lparr>applications :=
         fold (\<lambda>i as. as[i := (as ! i)\<lparr>startTime := Some t\<rparr>]) c (applications s)\<rparr>"

definition Stop :: "ApplicationContainer \<Rightarrow> Time \<Rightarrow> sim \<Rightarrow> sim" where
  "Stop c t s =
     s\<lparr>applications :=
         fold (\<lambda>i as. as[i := (as ! i)\<lparr>stopTime := Some t\<rparr>]) c (applications s)\<rparr>"

section \<open>Loops\<close>

text \<open>
  Every loop of the two programs has the shape
  \<^verbatim>\<open>for (uint32_t i = 0; i < n; ++i) { body }\<close> with \<open>n\<close> fixed before the loop. A body
  that reaches a failing framework call ends the run.
\<close>

function for_u32 :: "u32 \<Rightarrow> u32 \<Rightarrow> (u32 \<Rightarrow> 's \<Rightarrow> 's option) \<Rightarrow> 's \<Rightarrow> 's option" where
  "for_u32 i n body s =
     (if i < n then (case body i s of None \<Rightarrow> None | Some s' \<Rightarrow> for_u32 (i + 1) n body s')
      else Some s)"
  by pat_completeness auto
termination
proof (relation "measure (\<lambda>(i, n, body, s). unat n - unat i)")
  show "wf (measure (\<lambda>(i, n, body, s). unat n - unat i))"
    by simp
next
  fix i n :: u32 and body :: "u32 \<Rightarrow> 's \<Rightarrow> 's option" and s x2 :: 's
  assume "i < n"
  then have less: "unat i < unat n"
    by (simp add: word_less_nat_alt)
  moreover have "unat n < 2 ^ 32"
    using unsigned_less [of n] by simp
  ultimately have "unat i + unat (1::u32) < 2 ^ LENGTH(32)"
    by simp
  then have "unat (i + 1) = unat i + unat (1::u32)"
    by (simp only: unat_add_lem)
  with less show "((i + 1, n, body, x2), (i, n, body, s))
      \<in> measure (\<lambda>(i, n, body, s). unat n - unat i)"
    by simp
qed

declare for_u32.simps [simp del]

text \<open>\<^verbatim>\<open>cmd.AddValue\<close> and \<^verbatim>\<open>cmd.Parse\<close>: a flag given on the command line overrides the initial value.\<close>

definition AddValue :: "u32 \<Rightarrow> u32 option \<Rightarrow> u32" where
  "AddValue initial_value flag = (case flag of None \<Rightarrow> initial_value | Some v \<Rightarrow> v)"

section \<open>edgecloud\_Stream2.cc\<close>

text \<open>
  \<^verbatim>\<open>main\<close> is modelled section by section, in the order of its banner comments: the
  backbone (lines 126 to 167), the point-to-point branch nodes (lines 178 to 245), the
  wireless cells (lines 259 to 338), the applications (lines 376 to 420), and tracing and
  the simulator (lines 430 to 458).
\<close>

definition edgecloud_backbone :: "u32 \<Rightarrow> sim \<Rightarrow> NodeContainer \<times> sim" where
  "edgecloud_backbone nWifis s =
     (let (backboneNodes, s) = Create in_backbone nWifis s;
          backboneNodesDevices = (CsmaHelper, backboneNodes);
          s = call (SetBase ''192.168.0.0'' ''255.255.255.0'') s;
          s = call (Assign backboneNodesDevices) s
      in (backboneNodes, s))"

definition edgecloud_p2p_body :: "NodeContainer \<Rightarrow> u32 \<Rightarrow> sim \<Rightarrow> sim option" where
  "edgecloud_p2p_body backboneNodes i s = do {
     let (p2pNodes, s) = Create (in_branch i) 1 s;
     b \<leftarrow> Get backboneNodes i;
     let p2pNetwork = b # p2pNodes;
     let p2pDevices = (PointToPointHelper, p2pNetwork);
     let s = call (Assign p2pDevices) s;
     let s = call NewNetwork s;
     s \<leftarrow> for_u32 0 (GetN p2pNodes)
            (\<lambda>j s. Some (call (Add (Vector 0.0 (of_nat (unat (j * 10 + 10))) 0.0)) s)) s;
     b \<leftarrow> Get backboneNodes i;
     Some s
   }"

definition edgecloud_p2p :: "u32 \<Rightarrow> NodeContainer \<Rightarrow> sim \<Rightarrow> sim option" where
  "edgecloud_p2p nWifis backboneNodes s = do {
     let s = call (SetBase ''172.16.0.0'' ''255.255.255.0'') s;
     for_u32 0 nWifis (edgecloud_p2p_body backboneNodes) s
   }"

text \<open>
  The position loop of the wireless cells carries \<^verbatim>\<open>temp1\<close> and \<^verbatim>\<open>temp2\<close> along with the
  framework state.
\<close>

definition edgecloud_position_body :: "u32 \<Rightarrow> u32 \<times> u32 \<times> sim \<Rightarrow> (u32 \<times> u32 \<times> sim) option" where
  "edgecloud_position_body j st =
     (case st of (temp1, temp2, s) \<Rightarrow>
        let s = call (Add (Vector (15.0 + of_nat (unat temp1)) (of_nat (unat (j + 2)))
                                  (15.0 + of_nat (unat temp2)))) s;
            temp1 = temp1 + 3;
            temp2 = temp2 + 15
        in Some (temp1, temp2, s))"

definition edgecloud_mobile_body :: "u32 \<Rightarrow> NodeContainer \<Rightarrow> u32 \<Rightarrow> sim \<Rightarrow> sim option" where
  "edgecloud_mobile_body nStas backboneNodes i s = do {
     let (stas, s) = Create (in_stas i) nStas s;
     b \<leftarrow> Get backboneNodes i;
     let infra = b # stas;
     let staDevices = (InfraWifi, stas);
     b \<leftarrow> Get backboneNodes i;
     let apDevices = (InfraWifi, [b]);
     let sta_ap_Devices = (InfraWifi, snd apDevices @ snd staDevices);
     let s = call (Assign sta_ap_Devices) s;
     let s = call NewNetwork s;
     (temp1, temp2, s) \<leftarrow> for_u32 0 (GetN infra) edgecloud_position_body (0, 0, s);
     b \<leftarrow> Get backboneNodes i;
     Some s
   }"

definition edgecloud_mobile :: "u32 \<Rightarrow> u32 \<Rightarrow> NodeContainer \<Rightarrow> sim \<Rightarrow> sim option" where
  "edgecloud_mobile nWifis nStas backboneNodes s = do {
     let s = call (SetBase ''10.0.0.0'' ''255.255.255.0'') s;
     s \<leftarrow> for_u32 0 nWifis (edgecloud_mobile_body nStas backboneNodes) s;
     Some (call PopulateRoutingTables s)
   }"

definition edgecloud_inner_body ::
  "u32 \<Rightarrow> u32 \<Rightarrow> nat \<Rightarrow> Ipv4Address \<Rightarrow> u32 \<Rightarrow> u32 \<times> sim \<Rightarrow> (u32 \<times> sim) option" where
  "edgecloud_inner_body nWifis p2pNode appSource sourceAddr m st =
     (case st of (j, s) \<Rightarrow> do {
        let lastNodeIndex = nWifis + nWifis * p2pNode + j;
        (appSink, s) \<leftarrow> GetNode sink lastNodeIndex s;
        let (serverApps, s) = Install (UdpEchoServerHelper 9) [] appSource s;
        let s = Start serverApps (Seconds 1.0) s;
        let MaxPacketSize = 1024;
        let interPacketInterval = Seconds 0.01;
        let maxPacketCount = 3500;
        let (clientApps, s) =
              Install (UdpEchoClientHelper sourceAddr 9)
                [(''MaxPackets'', UintegerValue maxPacketCount),
                 (''Interval'', TimeValue interPacketInterval),
                 (''PacketSize'', UintegerValue MaxPacketSize)] appSink s;
        let s = Start clientApps (Seconds 2.0) s;
        let j = j + 1;
        let s = call (EnablePcap appSink) s;
        Some (j, s)
      })"

definition edgecloud_outer_body ::
  "u32 \<Rightarrow> u32 \<Rightarrow> u32 \<Rightarrow> u32 \<Rightarrow> u32 \<times> u32 \<times> sim \<Rightarrow> (u32 \<times> u32 \<times> sim) option" where
  "edgecloud_outer_body nWifis nStas p2pNode i st =
     (case st of (j, k, s) \<Rightarrow> do {
        let k = (if i mod 2 = 0 then k + 2 else k);
        let firstNodeIndex = nWifis + k;
        (appSource, s) \<leftarrow> GetNode source firstNodeIndex s;
        let sourceAddr = GetAddress appSource 1 0;
        (j, s) \<leftarrow> for_u32 0 nStas (edgecloud_inner_body nWifis p2pNode appSource sourceAddr) (j, s);
        Some (j, k, s)
      })"

definition edgecloud_applications :: "u32 \<Rightarrow> u32 \<Rightarrow> u32 \<Rightarrow> sim \<Rightarrow> sim option" where
  "edgecloud_applications nWifis nStas p2pNode s = do {
     let j = 0;
     let k = - 2;
     (j, k, s) \<leftarrow> for_u32 0 nWifis (edgecloud_outer_body nWifis nStas p2pNode) (j, k, s);
     Some s
   }"

definition edgecloud_run :: "sim \<Rightarrow> sim" where
  "edgecloud_run s =
     (let s = call (CreateFileStream ''edgecloud_Stream.tr'') s;
          s = call (EnablePcapAll ''edgecloud_Stream'') s;
          s = call (AnimationInterface ''edgecloud_Stream.xml'') s;
          s = call (Simulator_Stop None) s;
          s = call Simulator_Run s;
          s = call Simulator_Destroy s
      in s)"

text \<open>
  \<^verbatim>\<open>main\<close> of \<^verbatim>\<open>edgecloud_Stream2.cc\<close>, given the values of the flags \<^verbatim>\<open>--nWifis\<close> and
  \<^verbatim>\<open>--nStas\<close> when present. The result is the exit status of the process and the final
  framework state, or \<open>None\<close> when a framework call failed.
\<close>

definition edgecloud_main :: "u32 option \<Rightarrow> u32 option \<Rightarrow> (int \<times> sim) option" where
  "edgecloud_main nWifis_flag nStas_flag = do {
     let nWifis = AddValue 6 nWifis_flag;
     let nStas = AddValue 4 nStas_flag;
     let p2pNode = 1;
     let (backboneNodes, s) = edgecloud_backbone nWifis initial;
     s \<leftarrow> edgecloud_p2p nWifis backboneNodes s;
     s \<leftarrow> edgecloud_mobile nWifis nStas backboneNodes s;
     s \<leftarrow> edgecloud_applications nWifis nStas p2pNode s;
     let s = edgecloud_run s;
     Some (0, s)
   }"

section \<open>wifi\_p2p.cc\<close>

text \<open>
  The same sections in \<^verbatim>\<open>wifi_p2p.cc\<close>: the backbone (lines 131 to 179), the LAN nodes (lines
  190 to 262), the wireless cells (lines 276 to 350), the applications (lines 374 to 397),
  and tracing and the simulator (lines 436 to 466). The number of LAN nodes per backbone
  node is the literal 1 of \<^verbatim>\<open>newLanNodes.Create (1)\<close>; \<^verbatim>\<open>lanNodes\<close> is used only in the index
  of the sink.
\<close>

definition wifi_p2p_backbone :: "u32 \<Rightarrow> sim \<Rightarrow> NodeContainer \<times> NetDeviceContainer \<times> sim" where
  "wifi_p2p_backbone backboneNodes s =
     (let (backbone, s) = Create in_backbone backboneNodes s;
          backboneDevices = (AdhocWifi, backbone);
          s = call (SetBase ''192.168.0.0'' ''255.255.255.0'') s;
          s = call (Assign backboneDevices) s
      in (backbone, backboneDevices, s))"

definition wifi_p2p_lan_body :: "NodeContainer \<Rightarrow> u32 \<Rightarrow> sim \<Rightarrow> sim option" where
  "wifi_p2p_lan_body backbone i s = do {
     let (newLanNodes, s) = Create (in_branch i) 1 s;
     b \<leftarrow> Get backbone i;
     let lan = b # newLanNodes;
     let p2pDevices = (PointToPointHelper, lan);
     let s = call (Assign p2pDevices) s;
     let s = call NewNetwork s;
     s \<leftarrow> for_u32 0 (GetN newLanNodes)
            (\<lambda>j s. Some (call (Add (Vector 0.0 (of_nat (unat (j * 10 + 10))) 0.0)) s)) s;
     b \<leftarrow> Get backbone i;
     Some s
   }"

definition wifi_p2p_lans :: "u32 \<Rightarrow> NodeContainer \<Rightarrow> sim \<Rightarrow> sim option" where
  "wifi_p2p_lans backboneNodes backbone s = do {
     let s = call (SetBase ''172.16.0.0'' ''255.255.255.0'') s;
     for_u32 0 backboneNodes (wifi_p2p_lan_body backbone) s
   }"

definition wifi_p2p_position_body :: "u32 \<Rightarrow> sim \<Rightarrow> sim option" where
  "wifi_p2p_position_body j s = Some (call (Add (Vector 0.0 (of_nat (unat j)) 0.0)) s)"

definition wifi_p2p_mobile_body :: "u32 \<Rightarrow> NodeContainer \<Rightarrow> u32 \<Rightarrow> sim \<Rightarrow> sim option" where
  "wifi_p2p_mobile_body infraNodes backbone i s = do {
     let (stas, s) = Create (in_stas i) infraNodes s;
     b \<leftarrow> Get backbone i;
     let infra = b # stas;
     let staDevices = (InfraWifi, stas);
     b \<leftarrow> Get backbone i;
     let apDevices = (InfraWifi, [b]);
     let infraDevices = (InfraWifi, snd apDevices @ snd staDevices);
     let s = call (Assign infraDevices) s;
     let s = call NewNetwork s;
     s \<leftarrow> for_u32 0 (GetN infra) wifi_p2p_position_body s;
     b \<leftarrow> Get backbone i;
     Some s
   }"

definition wifi_p2p_mobile :: "u32 \<Rightarrow> u32 \<Rightarrow> NodeContainer \<Rightarrow> sim \<Rightarrow> sim option" where
  "wifi_p2p_mobile backboneNodes infraNodes backbone s = do {
     let s = call (SetBase ''10.0.0.0'' ''255.255.255.0'') s;
     s \<leftarrow> for_u32 0 backboneNodes (wifi_p2p_mobile_body infraNodes backbone) s;
     Some (call PopulateRoutingTables s)
   }"

text \<open>The three construction sections of \<^verbatim>\<open>wifi_p2p.cc\<close>, from the empty framework state.\<close>

definition wifi_p2p_construct :: "u32 \<Rightarrow> u32 \<Rightarrow> (NetDeviceContainer \<times> sim) option" where
  "wifi_p2p_construct backboneNodes infraNodes = do {
     let (backbone, backboneDevices, s) = wifi_p2p_backbone backboneNodes initial;
     s \<leftarrow> wifi_p2p_lans backboneNodes backbone s;
     s \<leftarrow> wifi_p2p_mobile backboneNodes infraNodes backbone s;
     Some (backboneDevices, s)
   }"

definition wifi_p2p_applications :: "u32 \<Rightarrow> u32 \<Rightarrow> sim \<Rightarrow> (nat \<times> sim) option" where
  "wifi_p2p_applications backboneNodes lanNodes s = do {
     let firstNodeIndex = backboneNodes + 2;
     (appSource, s) \<leftarrow> GetNode source firstNodeIndex s;
     let sourceAddr = GetAddress appSource 1 0;
     let lastNodeIndex = backboneNodes + backboneNodes * lanNodes;
     (appSink, s) \<leftarrow> GetNode sink lastNodeIndex s;
     let (serverApps, s) = Install (UdpEchoServerHelper 9) [] appSource s;
     let s = Start serverApps (Seconds 1.0) s;
     let s = Stop serverApps (Seconds 10.0) s;
     let (clientApps, s) =
           Install (UdpEchoClientHelper sourceAddr 9)
             [(''MaxPackets'', UintegerValue 1),
              (''Interval'', TimeValue (Seconds 3.0)),
              (''PacketSize'', UintegerValue 1024)] appSink s;
     let s = Start clientApps (Seconds 2.0) s;
     let s = Stop clientApps (Seconds 10.0) s;
     Some (appSink, s)
   }"

definition wifi_p2p_run :: "NetDeviceContainer \<Rightarrow> nat \<Rightarrow> sim \<Rightarrow> sim" where
  "wifi_p2p_run backboneDevices appSink s =
     (let s = call (CreateFileStream ''wifimodified.tr'') s;
          s = call (EnablePcapDevices backboneDevices) s;
          s = call (EnablePcap appSink) s;
          s = call (AnimationInterface ''wifi-p2p.xml'') s;
          s = call (Simulator_Stop (Some (Seconds 10.0))) s;
          s = call Simulator_Run s;
          s = call Simulator_Destroy s
      in s)"

text \<open>
  \<^verbatim>\<open>main\<close> of \<^verbatim>\<open>wifi_p2p.cc\<close>, given the values of the flags \<^verbatim>\<open>--backboneNodes\<close>,
  \<^verbatim>\<open>--infraNodes\<close> and \<^verbatim>\<open>--lanNodes\<close> when present.
\<close>

definition wifi_p2p_main :: "u32 option \<Rightarrow> u32 option \<Rightarrow> u32 option \<Rightarrow> (int \<times> sim) option" where
  "wifi_p2p_main backboneNodes_flag infraNodes_flag lanNodes_flag = do {
     let backboneNodes = AddValue 3 backboneNodes_flag;
     let infraNodes = AddValue 2 infraNodes_flag;
     let lanNodes = AddValue 1 lanNodes_flag;
     (backboneDevices, s) \<leftarrow> wifi_p2p_construct backboneNodes infraNodes;
     (appSink, s) \<leftarrow> wifi_p2p_applications backboneNodes lanNodes s;
     let s = wifi_p2p_run backboneDevices appSink s;
     Some (0, s)
   }"

section \<open>Observations and closed forms\<close>

text \<open>
  Observations on a final state: which applications are servers and when they start and
  stop, the indices looked up in the node list, the address bases and the kind of devices
  assigned under each, and the calls of a given kind.
\<close>

definition is_server :: "application \<Rightarrow> bool" where
  "is_server a =
     (case helper a of UdpEchoServerHelper port \<Rightarrow> True | UdpEchoClientHelper remote port \<Rightarrow> False)"

definition schedule :: "application \<Rightarrow> bool \<times> Time option \<times> Time option" where
  "schedule a = (is_server a, startTime a, stopTime a)"

definition lookup :: "receiver \<Rightarrow> call \<Rightarrow> u32 list" where
  "lookup r c = (case c of NodeList_GetNode r' n \<Rightarrow> if r' = r then [n] else [] | _ \<Rightarrow> [])"

definition lookups :: "receiver \<Rightarrow> call list \<Rightarrow> u32 list" where
  "lookups r cs = concat (map (lookup r) cs)"

definition addressing :: "call \<Rightarrow> (string \<times> string + link) list" where
  "addressing c =
     (case c of SetBase network netmask \<Rightarrow> [Inl (network, netmask)]
      | Assign devices \<Rightarrow> [Inr (fst devices)]
      | _ \<Rightarrow> [])"

definition address_plan :: "call list \<Rightarrow> (string \<times> string + link) list" where
  "address_plan cs = concat (map addressing cs)"

definition is_Add :: "call \<Rightarrow> bool" where
  "is_Add c = (case c of Add v \<Rightarrow> True | _ \<Rightarrow> False)"

definition is_Simulator :: "call \<Rightarrow> bool" where
  "is_Simulator c =
     (case c of Simulator_Stop t \<Rightarrow> True | Simulator_Run \<Rightarrow> True | Simulator_Destroy \<Rightarrow> True
      | _ \<Rightarrow> False)"

text \<open>
  The calls and applications that the loops of \<^verbatim>\<open>edgecloud_Stream2\<close> add, written without
  recursion, and the final state of a run with parameters \<open>nWifis\<close> and \<open>nStas\<close>. The lemmas
  of the next section show that the program computes exactly these.
\<close>

definition edgecloud_positions :: "nat \<Rightarrow> call list" where
  "edgecloud_positions n =
     map (\<lambda>j. Add (Vector (15 + of_nat (unat (3 * word_of_nat j :: u32)))
                          (of_nat (unat (word_of_nat j + 2 :: u32)))
                          (15 + of_nat (unat (15 * word_of_nat j :: u32))))) [0..<n]"

definition echo_server :: "nat \<Rightarrow> Time option \<Rightarrow> application" where
  "echo_server a stop_at =
     \<lparr>helper = UdpEchoServerHelper 9, attributes = [], node = a,
      startTime = Some (Seconds 1), stopTime = stop_at\<rparr>"

definition edgecloud_client :: "Ipv4Address \<Rightarrow> nat \<Rightarrow> application" where
  "edgecloud_client a b =
     \<lparr>helper = UdpEchoClientHelper a 9,
      attributes = [(''MaxPackets'', UintegerValue 3500),
                    (''Interval'', TimeValue (Seconds (1 / 100))),
                    (''PacketSize'', UintegerValue 1024)],
      node = b, startTime = Some (Seconds 2), stopTime = None\<rparr>"

definition edgecloud_source :: "u32 \<Rightarrow> nat \<Rightarrow> u32" where
  "edgecloud_source nWifis i = nWifis + 2 * word_of_nat (i div 2)"

definition edgecloud_sink :: "u32 \<Rightarrow> nat \<Rightarrow> u32" where
  "edgecloud_sink nWifis j = nWifis + nWifis * 1 + word_of_nat j"

definition edgecloud_iteration_apps :: "u32 \<Rightarrow> u32 \<Rightarrow> nat \<Rightarrow> application list" where
  "edgecloud_iteration_apps nWifis nStas i =
     concat (map (\<lambda>m. [echo_server (unat (edgecloud_source nWifis i)) None,
                        edgecloud_client (GetAddress (unat (edgecloud_source nWifis i)) 1 0)
                          (unat (edgecloud_sink nWifis (i * unat nStas + m)))])
               [0..<unat nStas])"

definition edgecloud_iteration_calls :: "u32 \<Rightarrow> u32 \<Rightarrow> nat \<Rightarrow> call list" where
  "edgecloud_iteration_calls nWifis nStas i =
     NodeList_GetNode source (edgecloud_source nWifis i) #
     concat (map (\<lambda>m. [NodeList_GetNode sink (edgecloud_sink nWifis (i * unat nStas + m)),
                        EnablePcap (unat (edgecloud_sink nWifis (i * unat nStas + m)))])
               [0..<unat nStas])"

definition edgecloud_final :: "u32 \<Rightarrow> u32 \<Rightarrow> sim" where
  "edgecloud_final nWifis nStas =
     \<lparr>NodeList =
        replicate (unat nWifis) in_backbone @
        map (\<lambda>i. in_branch (word_of_nat i)) [0..<unat nWifis] @
        concat (map (\<lambda>i. replicate (unat nStas) (in_stas (word_of_nat i))) [0..<unat nWifis]),
      applications = concat (map (edgecloud_iteration_apps nWifis nStas) [0..<unat nWifis]),
      calls =
        [SetBase ''192.168.0.0'' ''255.255.255.0'', Assign (CsmaHelper, [0..<unat nWifis]),
         SetBase ''172.16.0.0'' ''255.255.255.0''] @
        concat (map (\<lambda>i. [Assign (PointToPointHelper, [i, unat nWifis + i]), NewNetwork,
                            Add (Vector 0 10 0)]) [0..<unat nWifis]) @
        [SetBase ''10.0.0.0'' ''255.255.255.0''] @
        concat (map (\<lambda>i. Assign (InfraWifi, i #
                              [2 * unat nWifis + i * unat nStas..<
                               2 * unat nWifis + i * unat nStas + unat nStas]) #
                            NewNetwork # edgecloud_positions (unat (1 + nStas)))
                   [0..<unat nWifis]) @
        [PopulateRoutingTables] @
        concat (map (edgecloud_iteration_calls nWifis nStas) [0..<unat nWifis]) @
        [CreateFileStream ''edgecloud_Stream.tr'', EnablePcapAll ''edgecloud_Stream'',
         AnimationInterface ''edgecloud_Stream.xml'', Simulator_Stop None, Simulator_Run,
         Simulator_Destroy]\<rparr>"

text \<open>The same for \<^verbatim>\<open>wifi_p2p\<close>: the state after its construction sections and after a run.\<close>

definition wifi_p2p_positions :: "nat \<Rightarrow> call list" where
  "wifi_p2p_positions n = map (\<lambda>j. Add (Vector 0 (of_nat (unat (word_of_nat j :: u32))) 0)) [0..<n]"

definition wifi_p2p_client :: "Ipv4Address \<Rightarrow> nat \<Rightarrow> application" where
  "wifi_p2p_client a b =
     \<lparr>helper = UdpEchoClientHelper a 9,
      attributes = [(''MaxPackets'', UintegerValue 1),
                    (''Interval'', TimeValue (Seconds 3)),
                    (''PacketSize'', UintegerValue 1024)],
      node = b, startTime = Some (Seconds 2), stopTime = Some (Seconds 10)\<rparr>"

definition wifi_p2p_constructed :: "u32 \<Rightarrow> u32 \<Rightarrow> sim" where
  "wifi_p2p_constructed backboneNodes infraNodes =
     \<lparr>NodeList =
        replicate (unat backboneNodes) in_backbone @
        map (\<lambda>i. in_branch (word_of_nat i)) [0..<unat backboneNodes] @
        concat (map (\<lambda>i. replicate (unat infraNodes) (in_stas (word_of_nat i)))
                  [0..<unat backboneNodes]),
      applications = [],
      calls =
        [SetBase ''192.168.0.0'' ''255.255.255.0'', Assign (AdhocWifi, [0..<unat backboneNodes]),
         SetBase ''172.16.0.0'' ''255.255.255.0''] @
        concat (map (\<lambda>i. [Assign (PointToPointHelper, [i, unat backboneNodes + i]), NewNetwork,
                            Add (Vector 0 10 0)]) [0..<unat backboneNodes]) @
        [SetBase ''10.0.0.0'' ''255.255.255.0''] @
        concat (map (\<lambda>i. Assign (InfraWifi, i #
                              [2 * unat backboneNodes + i * unat infraNodes..<
                               2 * unat backboneNodes + i * unat infraNodes + unat infraNodes]) #
                            NewNetwork # wifi_p2p_positions (unat (1 + infraNodes)))
                   [0..<unat backboneNodes]) @
        [PopulateRoutingTables]\<rparr>"

definition wifi_p2p_final :: "u32 \<Rightarrow> u32 \<Rightarrow> u32 \<Rightarrow> sim" where
  "wifi_p2p_final backboneNodes infraNodes lanNodes =
     (let s = wifi_p2p_constructed backboneNodes infraNodes;
          appSource = unat (backboneNodes + 2);
          appSink = unat (backboneNodes + backboneNodes * lanNodes)
      in s\<lparr>applications :=
             [echo_server appSource (Some (Seconds 10)),
              wifi_p2p_client (GetAddress appSource 1 0) appSink],
           calls := calls s @
             [NodeList_GetNode source (backboneNodes + 2),
              NodeList_GetNode sink (backboneNodes + backboneNodes * lanNodes),
              CreateFileStream ''wifimodified.tr'',
              EnablePcapDevices (AdhocWifi, [0..<unat backboneNodes]),
              EnablePcap appSink, AnimationInterface ''wifi-p2p.xml'',
              Simulator_Stop (Some (Seconds 10)), Simulator_Run, Simulator_Destroy]\<rparr>)"

section \<open>Properties\<close>

subsection \<open>The loop rule\<close>

text \<open>
  A loop over \<open>i = 0, \<dots>, n - 1\<close> whose body keeps an invariant returns in a state that
  satisfies it at \<open>n\<close>; in particular, when the state after \<open>k\<close> iterations is known in
  closed form, so is the result.
\<close>

lemma u32_succ: "(i::u32) < n \<Longrightarrow> unat (i + 1) = Suc (unat i)"
proof -
  assume "i < n"
  then have "unat i < unat n" by (simp add: word_less_nat_alt)
  moreover have "unat n < 2 ^ 32" using unsigned_less [of n] by simp
  ultimately have "unat i + unat (1::u32) < 2 ^ LENGTH(32)" by simp
  then have "unat (i + 1) = unat i + unat (1::u32)" by (simp only: unat_add_lem)
  then show ?thesis by simp
qed

lemma for_u32_rule_from:
  assumes "I (unat i) s" and "i \<le> n"
    and "\<And>k t. unat i \<le> k \<Longrightarrow> k < unat n \<Longrightarrow> I k t \<Longrightarrow>
           \<exists>t'. body (word_of_nat k) t = Some t' \<and> I (Suc k) t'"
  shows "\<exists>t. for_u32 i n body s = Some t \<and> I (unat n) t"
  using assms
proof (induction i n body s rule: for_u32.induct)
  case (1 i n body s)
  show ?case
  proof (cases "i < n")
    case True
    then have lt: "unat i < unat n" by (simp add: word_less_nat_alt)
    from "1.prems"(3) [OF le_refl lt "1.prems"(1)]
    obtain t' where t': "body i t' = body i t'" "body i s = Some t'" "I (Suc (unat i)) t'"
      by auto
    have succ: "unat (i + 1) = Suc (unat i)" using True by (rule u32_succ)
    have "\<exists>t. for_u32 (i + 1) n body t' = Some t \<and> I (unat n) t"
    proof (rule "1.IH" [OF True t'(2)])
      show "I (unat (i + 1)) t'" using t'(3) succ by simp
      show "i + 1 \<le> n" using True by (rule inc_le)
      fix k t assume "unat (i + 1) \<le> k" "k < unat n" "I k t"
      then show "\<exists>t'. body (word_of_nat k) t = Some t' \<and> I (Suc k) t'"
        using "1.prems"(3) [of k t] succ by simp
    qed
    then show ?thesis using True t'(2) by (subst for_u32.simps) simp
  next
    case False
    with "1.prems"(2) have "i = n" by simp
    then show ?thesis using "1.prems"(1) by (subst for_u32.simps) simp
  qed
qed

lemma for_u32_rule:
  assumes "I 0 s"
    and "\<And>k t. k < unat n \<Longrightarrow> I k t \<Longrightarrow> \<exists>t'. body (word_of_nat k) t = Some t' \<and> I (Suc k) t'"
  shows "\<exists>t. for_u32 0 n body s = Some t \<and> I (unat n) t"
  using for_u32_rule_from [of I 0 s n body] assms by simp

lemma for_u32_closed:
  assumes "\<And>k. k < unat n \<Longrightarrow> body (word_of_nat k) (F k) = Some (F (Suc k))"
  shows "for_u32 0 n body (F 0) = Some (F (unat n))"
  using for_u32_rule [of "\<lambda>k t. t = F k" "F 0" n body] assms by auto

lemma for_u32_once: "for_u32 0 1 body s = body 0 s"
  by (simp add: for_u32.simps [of 0] for_u32.simps [of 1] split: option.split)

lemma unat_of_nat_below: "k < unat (n::u32) \<Longrightarrow> unat (word_of_nat k :: u32) = k"
  by (simp add: le_unat_uoi [of k n])

subsection \<open>The run of edgecloud\_Stream2 in closed form\<close>

lemma edgecloud_backbone_closed:
  "edgecloud_backbone nWifis initial =
     ([0..<unat nWifis],
      \<lparr>NodeList = replicate (unat nWifis) in_backbone, applications = [],
       calls = [SetBase ''192.168.0.0'' ''255.255.255.0'',
                Assign (CsmaHelper, [0..<unat nWifis])]\<rparr>)"
  by (simp add: edgecloud_backbone_def Create_def call_def initial_def)

lemma edgecloud_p2p_body_step:
  assumes "k < unat (nWifis::u32)"
  shows "edgecloud_p2p_body [0..<unat nWifis] (word_of_nat k) s =
     Some (s\<lparr>NodeList := NodeList s @ [in_branch (word_of_nat k)],
             calls := calls s @ [Assign (PointToPointHelper, [k, length (NodeList s)]),
                                 NewNetwork, Add (Vector 0 10 0)]\<rparr>)"
proof -
  have "unat (word_of_nat k :: u32) = k"
    using assms by (rule unat_of_nat_below)
  with assms show ?thesis
    by (simp add: edgecloud_p2p_body_def Create_def Get_def GetN_def call_def for_u32_once)
qed

lemma edgecloud_p2p_loop:
  "for_u32 0 nWifis (edgecloud_p2p_body [0..<unat nWifis]) s =
     Some (s\<lparr>NodeList := NodeList s @ map (\<lambda>i. in_branch (word_of_nat i)) [0..<unat nWifis],
             calls := calls s @ concat (map (\<lambda>i. [Assign (PointToPointHelper, [i, length (NodeList s) + i]),
                                 NewNetwork, Add (Vector 0 10 0)]) [0..<unat nWifis])\<rparr>)"
proof -
  let ?F = "\<lambda>k. s\<lparr>NodeList := NodeList s @ map (\<lambda>i. in_branch (word_of_nat i)) [0..<k],
             calls := calls s @ concat (map (\<lambda>i. [Assign (PointToPointHelper, [i, length (NodeList s) + i]),
                                 NewNetwork, Add (Vector 0 10 0)]) [0..<k])\<rparr>"
  have "for_u32 0 nWifis (edgecloud_p2p_body [0..<unat nWifis]) (?F 0) = Some (?F (unat nWifis))"
    by (rule for_u32_closed) (simp add: edgecloud_p2p_body_step)
  then show ?thesis by simp
qed

lemma edgecloud_position_loop:
  "for_u32 0 n edgecloud_position_body (0, 0, s) =
     Some (3 * n, 15 * n, s\<lparr>calls := calls s @ edgecloud_positions (unat n)\<rparr>)"
proof -
  let ?F = "\<lambda>m. (3 * word_of_nat m :: u32, 15 * word_of_nat m :: u32,
                 s\<lparr>calls := calls s @ edgecloud_positions m\<rparr>)"
  have "for_u32 0 n edgecloud_position_body (?F 0) = Some (?F (unat n))"
    by (rule for_u32_closed)
       (simp add: edgecloud_position_body_def edgecloud_positions_def call_def algebra_simps)
  then show ?thesis by (simp add: edgecloud_positions_def)
qed

lemma length_concat_replicate:
  "length (concat (map (\<lambda>i. replicate c (f i)) [0..<k])) = k * c"
  by (induction k) simp_all

lemma edgecloud_mobile_body_step:
  assumes "k < unat (nWifis::u32)"
  shows "edgecloud_mobile_body nStas [0..<unat nWifis] (word_of_nat k) s =
     Some (s\<lparr>NodeList := NodeList s @ replicate (unat nStas) (in_stas (word_of_nat k)),
             calls := calls s @
               Assign (InfraWifi, k # [length (NodeList s)..<length (NodeList s) + unat nStas]) #
               NewNetwork # edgecloud_positions (unat (1 + nStas))\<rparr>)"
proof -
  have "unat (word_of_nat k :: u32) = k"
    using assms by (rule unat_of_nat_below)
  with assms show ?thesis
    by (simp add: edgecloud_mobile_body_def Create_def Get_def GetN_def call_def
        edgecloud_position_loop)
qed

lemma edgecloud_mobile_loop:
  "for_u32 0 nWifis (edgecloud_mobile_body nStas [0..<unat nWifis]) s =
     Some (s\<lparr>NodeList := NodeList s @
               concat (map (\<lambda>i. replicate (unat nStas) (in_stas (word_of_nat i))) [0..<unat nWifis]),
             calls := calls s @
               concat (map (\<lambda>i. Assign (InfraWifi, i #
                                   [length (NodeList s) + i * unat nStas..<
                                    length (NodeList s) + i * unat nStas + unat nStas]) #
                                 NewNetwork # edgecloud_positions (unat (1 + nStas)))
                        [0..<unat nWifis])\<rparr>)"
proof -
  let ?F = "\<lambda>k. s\<lparr>NodeList := NodeList s @
               concat (map (\<lambda>i. replicate (unat nStas) (in_stas (word_of_nat i))) [0..<k]),
             calls := calls s @
               concat (map (\<lambda>i. Assign (InfraWifi, i #
                                   [length (NodeList s) + i * unat nStas..<
                                    length (NodeList s) + i * unat nStas + unat nStas]) #
                                 NewNetwork # edgecloud_positions (unat (1 + nStas)))
                        [0..<k])\<rparr>"
  have "for_u32 0 nWifis (edgecloud_mobile_body nStas [0..<unat nWifis]) (?F 0) =
          Some (?F (unat nWifis))"
    by (rule for_u32_closed)
       (simp add: edgecloud_mobile_body_step length_concat_replicate)
  then show ?thesis by simp
qed

lemma edgecloud_inner_body_step:
  assumes "unat (nWifis + nWifis * p2pNode + j) < length (NodeList s)"
  shows "edgecloud_inner_body nWifis p2pNode a addr m (j, s) =
     Some (j + 1,
           s\<lparr>applications := applications s @
                 [echo_server a None, edgecloud_client addr (unat (nWifis + nWifis * p2pNode + j))],
               calls := calls s @
                 [NodeList_GetNode sink (nWifis + nWifis * p2pNode + j),
                  EnablePcap (unat (nWifis + nWifis * p2pNode + j))]\<rparr>)"
  using assms
  by (simp add: edgecloud_inner_body_def GetNode_def Install_def Start_def call_def Let_def
      echo_server_def edgecloud_client_def list_update_append nth_append)

lemma edgecloud_inner_loop:
  assumes "\<And>m. m < unat nStas \<Longrightarrow>
             unat (nWifis + nWifis * p2pNode + (j + word_of_nat m)) < length (NodeList s)"
  shows "for_u32 0 nStas (edgecloud_inner_body nWifis p2pNode a addr) (j, s) =
     Some (j + nStas,
           s\<lparr>applications := applications s @
                 concat (map (\<lambda>m. [echo_server a None,
                     edgecloud_client addr (unat (nWifis + nWifis * p2pNode + (j + word_of_nat m)))])
                   [0..<unat nStas]),
               calls := calls s @
                 concat (map (\<lambda>m. [NodeList_GetNode sink (nWifis + nWifis * p2pNode + (j + word_of_nat m)),
                     EnablePcap (unat (nWifis + nWifis * p2pNode + (j + word_of_nat m)))])
                   [0..<unat nStas])\<rparr>)"
proof -
  let ?F = "\<lambda>k. (j + word_of_nat k,
           s\<lparr>applications := applications s @
                 concat (map (\<lambda>m. [echo_server a None,
                     edgecloud_client addr (unat (nWifis + nWifis * p2pNode + (j + word_of_nat m)))])
                   [0..<k]),
               calls := calls s @
                 concat (map (\<lambda>m. [NodeList_GetNode sink (nWifis + nWifis * p2pNode + (j + word_of_nat m)),
                     EnablePcap (unat (nWifis + nWifis * p2pNode + (j + word_of_nat m)))])
                   [0..<k])\<rparr>)"
  have "for_u32 0 nStas (edgecloud_inner_body nWifis p2pNode a addr) (?F 0) = Some (?F (unat nStas))"
  proof (rule for_u32_closed)
    fix k assume "k < unat nStas"
    then show "edgecloud_inner_body nWifis p2pNode a addr (word_of_nat k) (?F k) = Some (?F (Suc k))"
      using assms [of k] by (simp add: edgecloud_inner_body_step ac_simps)
  qed
  then show ?thesis by simp
qed

text \<open>Arithmetic of the two index expressions and of the counter \<open>k\<close>.\<close>

lemma unat_add_le: "unat (a + b :: u32) \<le> unat a + unat b"
  by (simp add: unat_word_ariths)

lemma unat_mult_le: "unat (a * b :: u32) \<le> unat a * unat b"
  by (simp add: unat_word_ariths)

lemma unat_of_nat_le: "unat (word_of_nat n :: u32) \<le> n"
  by (simp add: unat_of_nat)

lemma u32_even_iff: "((word_of_nat k :: u32) mod 2 = 0) = even k"
  by (simp add: even_iff_mod_2_eq_zero [symmetric])

lemma k_even: "even i \<Longrightarrow> (2 * word_of_nat ((i + 1) div 2) - 2 + 2 :: u32) = 2 * word_of_nat (i div 2)"
  by (elim evenE) simp

lemma k_odd: "odd i \<Longrightarrow> (2 * word_of_nat ((i + 1) div 2) - 2 :: u32) = 2 * word_of_nat (i div 2)"
  by (elim oddE) simp

lemma k_next: "(2 * word_of_nat ((Suc i + 1) div 2) - 2 :: u32) = 2 * word_of_nat (i div 2)"
  by simp

lemma source_bound:
  assumes "i < unat (nWifis::u32)"
  shows "unat (nWifis + 2 * word_of_nat (i div 2)) \<le> 2 * unat nWifis - 1"
proof -
  have "unat (nWifis + 2 * word_of_nat (i div 2)) \<le> unat nWifis + unat (2 * word_of_nat (i div 2) :: u32)"
    by (rule unat_add_le)
  also have "unat (2 * word_of_nat (i div 2) :: u32) \<le> unat (2::u32) * unat (word_of_nat (i div 2) :: u32)"
    by (rule unat_mult_le)
  also have "unat (word_of_nat (i div 2) :: u32) \<le> i div 2"
    by (rule unat_of_nat_le)
  finally have "unat (nWifis + 2 * word_of_nat (i div 2)) \<le> unat nWifis + 2 * (i div 2)"
    by simp
  with assms show ?thesis by simp
qed

lemma sink_bound:
  "unat (nWifis + nWifis * 1 + word_of_nat j :: u32) \<le> 2 * unat nWifis + j"
proof -
  have "unat (nWifis + nWifis * 1 + word_of_nat j) \<le> unat (nWifis + nWifis * 1) + unat (word_of_nat j :: u32)"
    by (rule unat_add_le)
  also have "unat (word_of_nat j :: u32) \<le> j"
    by (rule unat_of_nat_le)
  also have "unat (nWifis + nWifis * 1) \<le> unat nWifis + unat nWifis"
    using unat_add_le [of nWifis nWifis] by simp
  finally show ?thesis by simp
qed

lemma index_below: "i < n \<Longrightarrow> m < c \<Longrightarrow> i * c + m < n * (c::nat)"
proof -
  assume "i < n" "m < c"
  then have "i * c + m < Suc i * c" by simp
  also have "\<dots> \<le> n * c" using \<open>i < n\<close> by (intro mult_le_mono1) simp
  finally show ?thesis .
qed

lemma edgecloud_outer_body_step:
  assumes i: "i < unat nWifis"
    and len: "length (NodeList s) = unat nWifis * (2 + unat nStas)"
  shows "edgecloud_outer_body nWifis nStas 1 (word_of_nat i)
           (word_of_nat (i * unat nStas), 2 * word_of_nat ((i + 1) div 2) - 2, s) =
     Some (word_of_nat (Suc i * unat nStas), 2 * word_of_nat ((Suc i + 1) div 2) - 2,
           s\<lparr>applications := applications s @ edgecloud_iteration_apps nWifis nStas i,
             calls := calls s @ edgecloud_iteration_calls nWifis nStas i\<rparr>)"
proof -
  let ?k = "2 * word_of_nat (i div 2) :: u32"
  have k: "(if (word_of_nat i :: u32) mod 2 = 0 then 2 * word_of_nat ((i + 1) div 2) - 2 + 2
            else 2 * word_of_nat ((i + 1) div 2) - 2) = ?k"
    using k_even [of i] k_odd [of i] by (simp add: u32_even_iff)
  have "unat (nWifis + ?k) \<le> 2 * unat nWifis - 1"
    using i by (rule source_bound)
  with i have src: "unat (nWifis + ?k) < length (NodeList s)"
    by (simp add: len)
  have snk: "unat (nWifis + nWifis * 1 + (word_of_nat (i * unat nStas) + word_of_nat m))
        < length (NodeList s)" if "m < unat nStas" for m
  proof -
    have "unat (nWifis + nWifis * 1 + word_of_nat (i * unat nStas + m)) \<le>
            2 * unat nWifis + (i * unat nStas + m)"
      by (rule sink_bound)
    moreover have "i * unat nStas + m < unat nWifis * unat nStas"
      using i that by (rule index_below)
    ultimately show ?thesis
      by (simp add: len algebra_simps)
  qed
  let ?s = "call (NodeList_GetNode source (nWifis + ?k)) s"
  have inner: "for_u32 0 nStas
      (edgecloud_inner_body nWifis 1 (unat (nWifis + ?k)) (GetAddress (unat (nWifis + ?k)) 1 0))
      (word_of_nat (i * unat nStas), ?s) = Some (word_of_nat (i * unat nStas) + nStas,
           ?s\<lparr>applications := applications ?s @ edgecloud_iteration_apps nWifis nStas i,
               calls := calls ?s @ tl (edgecloud_iteration_calls nWifis nStas i)\<rparr>)"
    unfolding edgecloud_iteration_apps_def edgecloud_iteration_calls_def
      edgecloud_source_def edgecloud_sink_def list.sel of_nat_add
    by (rule edgecloud_inner_loop) (use snk in \<open>simp add: call_def\<close>)
  have get: "GetNode source (nWifis + ?k) s = Some (unat (nWifis + ?k), ?s)"
    by (simp add: GetNode_def src)
  show ?thesis
    by (simp only: edgecloud_outer_body_def prod.case Let_def k get inner Option.bind.bind_lunit k_next)
       (simp add: call_def edgecloud_iteration_calls_def edgecloud_source_def)
qed

lemma edgecloud_applications_closed:
  assumes len: "length (NodeList s) = unat nWifis * (2 + unat nStas)"
  shows "edgecloud_applications nWifis nStas 1 s =
     Some (s\<lparr>applications := applications s @
               concat (map (edgecloud_iteration_apps nWifis nStas) [0..<unat nWifis]),
             calls := calls s @
               concat (map (edgecloud_iteration_calls nWifis nStas) [0..<unat nWifis])\<rparr>)"
proof -
  let ?F = "\<lambda>i. (word_of_nat (i * unat nStas) :: u32, 2 * word_of_nat ((i + 1) div 2) - 2 :: u32,
            s\<lparr>applications := applications s @
               concat (map (edgecloud_iteration_apps nWifis nStas) [0..<i]),
             calls := calls s @
               concat (map (edgecloud_iteration_calls nWifis nStas) [0..<i])\<rparr>)"
  have "for_u32 0 nWifis (edgecloud_outer_body nWifis nStas 1) (?F 0) = Some (?F (unat nWifis))"
  proof (rule for_u32_closed)
    fix i assume "i < unat nWifis"
    then show "edgecloud_outer_body nWifis nStas 1 (word_of_nat i) (?F i) = Some (?F (Suc i))"
      by (subst edgecloud_outer_body_step) (simp_all add: len)
  qed
  then show ?thesis
    by (simp add: edgecloud_applications_def)
qed

lemma edgecloud_main_closed:
  "edgecloud_main nWifis_flag nStas_flag =
     Some (0, edgecloud_final (AddValue 6 nWifis_flag) (AddValue 4 nStas_flag))"
  by (simp add: edgecloud_main_def edgecloud_backbone_closed edgecloud_p2p_def
      edgecloud_p2p_loop edgecloud_mobile_def edgecloud_mobile_loop
      edgecloud_applications_closed length_concat_replicate edgecloud_run_def call_def
      edgecloud_final_def Let_def mult_2)

subsection \<open>The run of wifi\_p2p in closed form\<close>

lemma wifi_p2p_backbone_closed:
  "wifi_p2p_backbone backboneNodes initial =
     ([0..<unat backboneNodes], (AdhocWifi, [0..<unat backboneNodes]),
      \<lparr>NodeList = replicate (unat backboneNodes) in_backbone, applications = [],
       calls = [SetBase ''192.168.0.0'' ''255.255.255.0'',
                Assign (AdhocWifi, [0..<unat backboneNodes])]\<rparr>)"
  by (simp add: wifi_p2p_backbone_def Create_def call_def initial_def Let_def)

lemma wifi_p2p_lan_body_step:
  assumes "k < unat (backboneNodes::u32)"
  shows "wifi_p2p_lan_body [0..<unat backboneNodes] (word_of_nat k) s =
     Some (s\<lparr>NodeList := NodeList s @ [in_branch (word_of_nat k)],
             calls := calls s @ [Assign (PointToPointHelper, [k, length (NodeList s)]),
                                 NewNetwork, Add (Vector 0 10 0)]\<rparr>)"
proof -
  have "unat (word_of_nat k :: u32) = k"
    using assms by (rule unat_of_nat_below)
  with assms show ?thesis
    by (simp add: wifi_p2p_lan_body_def Create_def Get_def GetN_def call_def for_u32_once)
qed

lemma wifi_p2p_lan_loop:
  "for_u32 0 backboneNodes (wifi_p2p_lan_body [0..<unat backboneNodes]) s =
     Some (s\<lparr>NodeList := NodeList s @ map (\<lambda>i. in_branch (word_of_nat i)) [0..<unat backboneNodes],
             calls := calls s @ concat (map (\<lambda>i. [Assign (PointToPointHelper, [i, length (NodeList s) + i]),
                                 NewNetwork, Add (Vector 0 10 0)]) [0..<unat backboneNodes])\<rparr>)"
proof -
  let ?F = "\<lambda>k. s\<lparr>NodeList := NodeList s @ map (\<lambda>i. in_branch (word_of_nat i)) [0..<k],
             calls := calls s @ concat (map (\<lambda>i. [Assign (PointToPointHelper, [i, length (NodeList s) + i]),
                                 NewNetwork, Add (Vector 0 10 0)]) [0..<k])\<rparr>"
  have "for_u32 0 backboneNodes (wifi_p2p_lan_body [0..<unat backboneNodes]) (?F 0) =
          Some (?F (unat backboneNodes))"
    by (rule for_u32_closed) (simp add: wifi_p2p_lan_body_step)
  then show ?thesis by simp
qed

lemma wifi_p2p_position_loop:
  "for_u32 0 n wifi_p2p_position_body s =
     Some (s\<lparr>calls := calls s @ wifi_p2p_positions (unat n)\<rparr>)"
proof -
  let ?F = "\<lambda>m. s\<lparr>calls := calls s @ wifi_p2p_positions m\<rparr>"
  have "for_u32 0 n wifi_p2p_position_body (?F 0) =
          Some (?F (unat n))"
    by (rule for_u32_closed) (simp add: wifi_p2p_position_body_def wifi_p2p_positions_def call_def)
  then show ?thesis by (simp add: wifi_p2p_positions_def)
qed

lemma wifi_p2p_mobile_body_step:
  assumes "k < unat (backboneNodes::u32)"
  shows "wifi_p2p_mobile_body infraNodes [0..<unat backboneNodes] (word_of_nat k) s =
     Some (s\<lparr>NodeList := NodeList s @ replicate (unat infraNodes) (in_stas (word_of_nat k)),
             calls := calls s @
               Assign (InfraWifi, k # [length (NodeList s)..<length (NodeList s) + unat infraNodes]) #
               NewNetwork # wifi_p2p_positions (unat (1 + infraNodes))\<rparr>)"
proof -
  have "unat (word_of_nat k :: u32) = k"
    using assms by (rule unat_of_nat_below)
  with assms show ?thesis
    by (simp add: wifi_p2p_mobile_body_def Create_def Get_def GetN_def call_def
        wifi_p2p_position_loop)
qed

lemma wifi_p2p_mobile_loop:
  "for_u32 0 backboneNodes (wifi_p2p_mobile_body infraNodes [0..<unat backboneNodes]) s =
     Some (s\<lparr>NodeList := NodeList s @
               concat (map (\<lambda>i. replicate (unat infraNodes) (in_stas (word_of_nat i)))
                         [0..<unat backboneNodes]),
             calls := calls s @
               concat (map (\<lambda>i. Assign (InfraWifi, i #
                                   [length (NodeList s) + i * unat infraNodes..<
                                    length (NodeList s) + i * unat infraNodes + unat infraNodes]) #
                                 NewNetwork # wifi_p2p_positions (unat (1 + infraNodes)))
                        [0..<unat backboneNodes])\<rparr>)"
proof -
  let ?F = "\<lambda>k. s\<lparr>NodeList := NodeList s @
               concat (map (\<lambda>i. replicate (unat infraNodes) (in_stas (word_of_nat i))) [0..<k]),
             calls := calls s @
               concat (map (\<lambda>i. Assign (InfraWifi, i #
                                   [length (NodeList s) + i * unat infraNodes..<
                                    length (NodeList s) + i * unat infraNodes + unat infraNodes]) #
                                 NewNetwork # wifi_p2p_positions (unat (1 + infraNodes)))
                        [0..<k])\<rparr>"
  have "for_u32 0 backboneNodes (wifi_p2p_mobile_body infraNodes [0..<unat backboneNodes]) (?F 0) =
          Some (?F (unat backboneNodes))"
    by (rule for_u32_closed)
       (simp add: wifi_p2p_mobile_body_step length_concat_replicate)
  then show ?thesis by simp
qed

lemma wifi_p2p_construct_closed:
  "wifi_p2p_construct backboneNodes infraNodes =
     Some ((AdhocWifi, [0..<unat backboneNodes]), wifi_p2p_constructed backboneNodes infraNodes)"
  by (simp add: wifi_p2p_construct_def wifi_p2p_backbone_closed wifi_p2p_lans_def
      wifi_p2p_lan_loop wifi_p2p_mobile_def wifi_p2p_mobile_loop call_def
      wifi_p2p_constructed_def mult_2)

lemma length_wifi_p2p_constructed:
  "length (NodeList (wifi_p2p_constructed backboneNodes infraNodes)) =
     unat backboneNodes * (2 + unat infraNodes)"
  by (simp add: wifi_p2p_constructed_def length_concat_replicate)

lemma wifi_p2p_applications_closed:
  "wifi_p2p_applications backboneNodes lanNodes s =
     (if unat (backboneNodes + 2) < length (NodeList s) \<and>
         unat (backboneNodes + backboneNodes * lanNodes) < length (NodeList s)
      then Some (unat (backboneNodes + backboneNodes * lanNodes),
        s\<lparr>applications := applications s @
             [echo_server (unat (backboneNodes + 2)) (Some (Seconds 10)),
              wifi_p2p_client (GetAddress (unat (backboneNodes + 2)) 1 0)
                (unat (backboneNodes + backboneNodes * lanNodes))],
           calls := calls s @
             [NodeList_GetNode source (backboneNodes + 2),
              NodeList_GetNode sink (backboneNodes + backboneNodes * lanNodes)]\<rparr>)
      else None)"
  by (simp add: wifi_p2p_applications_def GetNode_def Install_def Start_def Stop_def call_def
      Let_def echo_server_def wifi_p2p_client_def list_update_append nth_append)

lemma wifi_p2p_main_closed:
  "wifi_p2p_main backboneNodes_flag infraNodes_flag lanNodes_flag =
     (let backboneNodes = AddValue 3 backboneNodes_flag;
          infraNodes = AddValue 2 infraNodes_flag;
          lanNodes = AddValue 1 lanNodes_flag
      in if unat (backboneNodes + 2) < unat backboneNodes * (2 + unat infraNodes) \<and>
            unat (backboneNodes + backboneNodes * lanNodes) < unat backboneNodes * (2 + unat infraNodes)
         then Some (0, wifi_p2p_final backboneNodes infraNodes lanNodes) else None)"
  by (simp add: wifi_p2p_main_def wifi_p2p_construct_closed wifi_p2p_applications_closed
      length_wifi_p2p_constructed Let_def wifi_p2p_run_def call_def wifi_p2p_final_def
      wifi_p2p_constructed_def length_concat_replicate)

subsection \<open>The node lookups of edgecloud\_Stream2\<close>

lemma lookups_simps [simp]:
  "lookups r [] = []"
  "lookups r (xs @ ys) = lookups r xs @ lookups r ys"
  "lookups r (c # cs) = lookup r c @ lookups r cs"
  by (simp_all add: lookups_def)

lemma lookups_concat: "lookups r (concat xss) = concat (map (lookups r) xss)"
  by (induction xss) simp_all

lemma lookup_simps [simp]:
  "lookup r (NodeList_GetNode r' n) = (if r' = r then [n] else [])"
  "lookup r (SetBase b m) = []"
  "lookup r (Assign d) = []"
  "lookup r NewNetwork = []"
  "lookup r (Add v) = []"
  "lookup r PopulateRoutingTables = []"
  "lookup r (EnablePcap a) = []"
  "lookup r (EnablePcapDevices d) = []"
  "lookup r (EnablePcapAll p) = []"
  "lookup r (CreateFileStream p) = []"
  "lookup r (AnimationInterface p) = []"
  "lookup r (Simulator_Stop t) = []"
  "lookup r Simulator_Run = []"
  "lookup r Simulator_Destroy = []"
  by (simp_all add: lookup_def)

lemma concat_Nil: "concat (map (\<lambda>i. []) xs) = []"
  by (induction xs) simp_all

lemma lookups_edgecloud_positions [simp]: "lookups r (edgecloud_positions n) = []"
  by (simp add: lookups_def edgecloud_positions_def comp_def concat_Nil)

lemma concat_map_range:
  "concat (map (\<lambda>i. map (\<lambda>m. f (i * c + m)) [0..<c]) [0..<n]) = map f [0..<n * c]"
proof (induction n)
  case 0
  show ?case by simp
next
  case (Suc n)
  have "map (\<lambda>m. f (n * c + m)) [0..<c] = map f (map (\<lambda>m. m + n * c) [0..<c])"
    by (simp add: add.commute)
  also have "\<dots> = map f [n * c..<c + n * c]"
    by (simp only: map_add_upt)
  finally have "map f [0..<n * c] @ map (\<lambda>m. f (n * c + m)) [0..<c] = map f ([0..<n * c] @ [n * c..<n * c + c])"
    by (simp add: add.commute)
  also have "[0..<n * c] @ [n * c..<n * c + c] = [0..<Suc n * c]"
    using upt_add_eq_append [of 0 "n * c" c] by (simp add: add.commute)
  finally show ?case using Suc by simp
qed

lemma lookups_source_iteration:
  "lookups source (edgecloud_iteration_calls nWifis nStas i) = [edgecloud_source nWifis i]"
  by (simp add: edgecloud_iteration_calls_def lookups_concat comp_def concat_Nil)

lemma lookups_sink_iteration:
  "lookups sink (edgecloud_iteration_calls nWifis nStas i) =
     map (\<lambda>m. edgecloud_sink nWifis (i * unat nStas + m)) [0..<unat nStas]"
proof -
  have "concat (map (\<lambda>x. [f x]) xs) = map f xs" for f :: "nat \<Rightarrow> u32" and xs
    by (induction xs) simp_all
  then show ?thesis
    by (simp add: edgecloud_iteration_calls_def lookups_concat comp_def)
qed

lemma lookups_edgecloud_final:
  "lookups source (calls (edgecloud_final nWifis nStas)) =
     map (edgecloud_source nWifis) [0..<unat nWifis]"
  "lookups sink (calls (edgecloud_final nWifis nStas)) =
     map (edgecloud_sink nWifis) [0..<unat nWifis * unat nStas]"
proof -
  have "concat (map (\<lambda>x. [f x]) xs) = map f xs" for f :: "nat \<Rightarrow> u32" and xs
    by (induction xs) simp_all
  then show "lookups source (calls (edgecloud_final nWifis nStas)) =
     map (edgecloud_source nWifis) [0..<unat nWifis]"
    by (simp add: edgecloud_final_def lookups_concat comp_def concat_Nil lookups_source_iteration)
  show "lookups sink (calls (edgecloud_final nWifis nStas)) =
     map (edgecloud_sink nWifis) [0..<unat nWifis * unat nStas]"
    by (simp add: edgecloud_final_def lookups_concat comp_def concat_Nil lookups_sink_iteration
        concat_map_range)
qed

subsection \<open>The applications of edgecloud\_Stream2\<close>

lemma length_concat_const:
  "(\<And>x. length (g x) = c) \<Longrightarrow> length (concat (map g xs)) = length xs * c"
  by (induction xs) simp_all

lemma servers_iteration:
  "filter is_server (edgecloud_iteration_apps nWifis nStas i) =
     replicate (unat nStas) (echo_server (unat (edgecloud_source nWifis i)) None)"
proof -
  have "concat (map (\<lambda>m. [x]) [0..<n]) = replicate n x" for x :: application and n
    by (induction n) (simp_all add: replicate_append_same)
  then show ?thesis
    by (simp add: edgecloud_iteration_apps_def filter_concat comp_def is_server_def
        echo_server_def edgecloud_client_def)
qed

lemma servers_edgecloud_final:
  "length (filter is_server (applications (edgecloud_final nWifis nStas))) = unat nWifis * unat nStas"
  using length_concat_const [of "\<lambda>i. filter is_server (edgecloud_iteration_apps nWifis nStas i)"
        "unat nStas" "[0..<unat nWifis]"]
  by (simp add: edgecloud_final_def filter_concat comp_def servers_iteration)

text \<open>
  C1. Run with no flag, that is with the default \<^verbatim>\<open>nWifis = 6\<close> and \<^verbatim>\<open>nStas = 4\<close>,
  \<^verbatim>\<open>edgecloud_Stream2\<close> completes and has installed exactly \<open>6 * 4\<close> UDP echo server
  applications: one \<^verbatim>\<open>echoServer.Install\<close> for each of the \<open>nStas\<close> inner iterations of
  each of the \<open>nWifis\<close> outer iterations of the application loop.
\<close>

theorem edgecloud_default_servers:
  "map_option (\<lambda>(status, s). length (filter is_server (applications s))) (edgecloud_main None None)
     = Some (6 * 4)"
  by (simp add: edgecloud_main_closed servers_edgecloud_final AddValue_def)

lemma length_edgecloud_final:
  "length (NodeList (edgecloud_final nWifis nStas)) = unat nWifis * (2 + unat nStas)"
  by (simp add: edgecloud_final_def length_concat_replicate)

lemma sink_lookups_nth:
  assumes "i < unat nWifis" "m < unat nStas"
  shows "lookups sink (calls (edgecloud_final nWifis nStas)) ! (i * unat nStas + m) =
      edgecloud_sink nWifis (i * unat nStas + m)"
proof -
  have "i * unat nStas + m < unat nWifis * unat nStas"
    using assms by (rule index_below)
  then show ?thesis
    by (simp add: lookups_edgecloud_final)
qed

text \<open>
  C3. For every value of the flags, the run of \<^verbatim>\<open>edgecloud_Stream2\<close> completes and the sink
  lookups \<^verbatim>\<open>NodeList::GetNode (lastNodeIndex)\<close> it makes are, in order, at the indices
  \<open>nWifis + nWifis * p2pNode + j\<close> for \<open>j = 0, 1, \<dots>, nWifis * nStas - 1\<close>, with
  \<open>p2pNode = 1\<close>; the lookup of inner iteration \<open>m\<close> of outer iteration \<open>i\<close> is the one
  numbered \<open>j = i * nStas + m\<close>, the number of inner iterations completed before it. The
  index is computed in \<^verbatim>\<open>uint32_t\<close> arithmetic, as the program does.
\<close>

theorem edgecloud_sink_indices:
  "\<exists>s. edgecloud_main nWifis_flag nStas_flag = Some (0, s) \<and>
     (let nWifis = AddValue 6 nWifis_flag; nStas = AddValue 4 nStas_flag; p2pNode = 1 in
       lookups sink (calls s) =
         map (\<lambda>j. nWifis + nWifis * p2pNode + word_of_nat j) [0..<unat nWifis * unat nStas] \<and>
       (\<forall>i < unat nWifis. \<forall>m < unat nStas.
          lookups sink (calls s) ! (i * unat nStas + m) =
            nWifis + nWifis * p2pNode + word_of_nat (i * unat nStas + m)))"
proof -
  let ?n = "AddValue 6 nWifis_flag" and ?c = "AddValue 4 nStas_flag"
  let ?s = "edgecloud_final ?n ?c"
  have run: "edgecloud_main nWifis_flag nStas_flag = Some (0, ?s)"
    by (rule edgecloud_main_closed)
  have list: "lookups sink (calls ?s) =
      map (\<lambda>j. ?n + ?n * 1 + word_of_nat j) [0..<unat ?n * unat ?c]"
    unfolding lookups_edgecloud_final(2) edgecloud_sink_def [abs_def] by (rule refl)
  have each: "\<forall>i < unat ?n. \<forall>m < unat ?c.
      lookups sink (calls ?s) ! (i * unat ?c + m) = ?n + ?n * 1 + word_of_nat (i * unat ?c + m)"
    by (intro allI impI) (simp only: sink_lookups_nth edgecloud_sink_def)
  show ?thesis
    unfolding Let_def by (rule exI [of _ ?s]) (intro conjI run list each)
qed

theorem edgecloud_sink_indices_witness:
  "\<exists>s. edgecloud_main None None = Some (0, s) \<and>
     lookups sink (calls s) = map (\<lambda>j. 6 + 6 * 1 + word_of_nat j) [0..<6 * 4] \<and>
     (2::nat) < 6 \<and> (3::nat) < 4 \<and>
     lookups sink (calls s) ! (2 * 4 + 3) = 6 + 6 * 1 + word_of_nat (2 * 4 + 3)"
proof -
  have v: "AddValue 6 None = (6::u32)" "AddValue 4 None = (4::u32)"
    by (simp_all add: AddValue_def)
  have u: "unat (6::u32) = 6" "unat (4::u32) = 4"
    by simp_all
  obtain s where s: "edgecloud_main None None = Some (0, s)"
      "lookups sink (calls s) = map (\<lambda>j. 6 + 6 * 1 + word_of_nat j) [0..<6 * 4]"
      "\<forall>i < 6. \<forall>m < 4. lookups sink (calls s) ! (i * 4 + m) = 6 + 6 * 1 + word_of_nat (i * 4 + m)"
    using edgecloud_sink_indices [of None None] unfolding Let_def v u by blast
  from s(3) [rule_format, of 2 3]
  have "lookups sink (calls s) ! (2 * 4 + 3) = 6 + 6 * 1 + word_of_nat (2 * 4 + 3)"
    by simp
  with s(1,2) show ?thesis
    by (intro exI [of _ s] conjI) simp_all
qed

lemma source_lookups_nth:
  "i < unat nWifis \<Longrightarrow>
     lookups source (calls (edgecloud_final nWifis nStas)) ! i = edgecloud_source nWifis i"
  by (simp add: lookups_edgecloud_final)

lemma source_no_wrap:
  assumes "i < unat (nWifis::u32)" and "unat nWifis \<le> 2 ^ 31"
  shows "unat (edgecloud_source nWifis i) = unat nWifis + 2 * (i div 2)"
proof (rule of_nat_inverse)
  show "word_of_nat (unat nWifis + 2 * (i div 2)) = edgecloud_source nWifis i"
    by (simp add: edgecloud_source_def)
  show "unat nWifis + 2 * (i div 2) < 2 ^ LENGTH(32)"
    using assms by simp
qed

lemma source_not_odd:
  assumes "odd k"
  shows "nWifis + word_of_nat k \<noteq> edgecloud_source nWifis i"
proof
  assume "nWifis + word_of_nat k = edgecloud_source nWifis i"
  then have "(word_of_nat k :: u32) = 2 * word_of_nat (i div 2)"
    by (simp add: edgecloud_source_def)
  then have "even (word_of_nat k :: u32)"
    by simp
  with assms show False
    by simp
qed

text \<open>
  C8. The counter \<open>k\<close> starts at \<^verbatim>\<open>uint32_t (-2)\<close>, that is \<open>2 ^ 32 - 2\<close>, and the first
  \<open>k += 2\<close> wraps it to 0: the outer iteration \<open>i = 0\<close>, entered with \<open>k = - 2\<close>, looks up
  index \<open>nWifis\<close> and leaves \<open>k = 0\<close> (shown for a body without inner iterations). For every value of the flags the run completes and the source
  lookups \<^verbatim>\<open>NodeList::GetNode (firstNodeIndex)\<close>, one per outer iteration and in order, are
  at \<open>nWifis + 2 * (i div 2)\<close> for \<open>i = 0, \<dots>, nWifis - 1\<close>, in \<^verbatim>\<open>uint32_t\<close> arithmetic (and
  as natural numbers whenever \<open>nWifis \<le> 2 ^ 31\<close>, where the sum cannot wrap). So the
  iterations \<open>2 * t\<close> and \<open>2 * t + 1\<close> use the same source node, and no node at an odd
  offset from \<open>nWifis\<close> is ever a source.
\<close>

theorem edgecloud_source_indices:
  "\<exists>s. edgecloud_main nWifis_flag nStas_flag = Some (0, s) \<and>
     (let nWifis = AddValue 6 nWifis_flag in
       lookups source (calls s) =
         map (\<lambda>i. nWifis + 2 * word_of_nat (i div 2)) [0..<unat nWifis] \<and>
       (unat nWifis \<le> 2 ^ 31 \<longrightarrow>
          map unat (lookups source (calls s)) =
            map (\<lambda>i. unat nWifis + 2 * (i div 2)) [0..<unat nWifis]) \<and>
       (\<forall>t. 2 * t + 1 < unat nWifis \<longrightarrow>
          lookups source (calls s) ! (2 * t) = lookups source (calls s) ! (2 * t + 1)) \<and>
       (\<forall>k. odd k \<longrightarrow> nWifis + word_of_nat k \<notin> set (lookups source (calls s))) \<and>
       (\<forall>j t. edgecloud_outer_body nWifis 0 1 0 (j, - 2, t) =
          (if unat nWifis < length (NodeList t)
           then Some (j, 0, call (NodeList_GetNode source nWifis) t) else None))) \<and>
     unat (- 2 :: u32) = 2 ^ 32 - 2 \<and> (- 2 :: u32) + 2 = 0"
proof -
  let ?n = "AddValue 6 nWifis_flag" and ?c = "AddValue 4 nStas_flag"
  let ?s = "edgecloud_final ?n ?c"
  have run: "edgecloud_main nWifis_flag nStas_flag = Some (0, ?s)"
    by (rule edgecloud_main_closed)
  have list: "lookups source (calls ?s) =
      map (\<lambda>i. ?n + 2 * word_of_nat (i div 2)) [0..<unat ?n]"
    unfolding lookups_edgecloud_final(1) edgecloud_source_def [abs_def] by (rule refl)
  have nat: "unat ?n \<le> 2 ^ 31 \<longrightarrow>
      map unat (lookups source (calls ?s)) = map (\<lambda>i. unat ?n + 2 * (i div 2)) [0..<unat ?n]"
    by (simp add: lookups_edgecloud_final(1) source_no_wrap)
  have pairs: "\<forall>t. 2 * t + 1 < unat ?n \<longrightarrow>
      lookups source (calls ?s) ! (2 * t) = lookups source (calls ?s) ! (2 * t + 1)"
    by (simp add: source_lookups_nth edgecloud_source_def)
  have odd: "\<forall>k. odd k \<longrightarrow> ?n + word_of_nat k \<notin> set (lookups source (calls ?s))"
    using source_not_odd [of _ ?n] by (auto simp add: lookups_edgecloud_final(1))
  have first: "\<forall>j t. edgecloud_outer_body ?n 0 1 0 (j, - 2, t) =
      (if unat ?n < length (NodeList t)
       then Some (j, 0, call (NodeList_GetNode source ?n) t) else None)"
    by (simp add: edgecloud_outer_body_def GetNode_def for_u32.simps [of 0 0])
  have k: "unat (- 2 :: u32) = 2 ^ 32 - 2" "(- 2 :: u32) + 2 = 0"
    by simp_all
  show ?thesis
    unfolding Let_def by (rule exI [of _ ?s]) (intro conjI run list nat pairs odd first k)
qed

theorem edgecloud_source_indices_witness:
  "\<exists>s. edgecloud_main None None = Some (0, s) \<and>
     lookups source (calls s) = [6, 6, 8, 8, 10, 10] \<and>
     map unat (lookups source (calls s)) = [6, 6, 8, 8, 10, 10] \<and>
     lookups source (calls s) ! (2 * 1) = lookups source (calls s) ! (2 * 1 + 1) \<and>
     6 + word_of_nat 1 \<notin> set (lookups source (calls s))"
proof -
  have v: "AddValue 6 None = (6::u32)"
    by (simp add: AddValue_def)
  have u: "unat (6::u32) = 6"
    by simp
  obtain s where s: "edgecloud_main None None = Some (0, s)"
      "lookups source (calls s) = map (\<lambda>i. 6 + 2 * word_of_nat (i div 2)) [0..<6]"
      "(6::nat) \<le> 2 ^ 31 \<longrightarrow>
         map unat (lookups source (calls s)) = map (\<lambda>i. 6 + 2 * (i div 2)) [0..<6]"
      "\<forall>t. 2 * t + 1 < 6 \<longrightarrow>
         lookups source (calls s) ! (2 * t) = lookups source (calls s) ! (2 * t + 1)"
      "\<forall>k. odd k \<longrightarrow> 6 + word_of_nat k \<notin> set (lookups source (calls s))"
    using edgecloud_source_indices [of None None] unfolding Let_def v u by blast
  have six: "[0..<6] = [0, 1, 2, 3, 4, 5::nat]"
    by code_simp
  have a: "lookups source (calls s) = [6, 6, 8, 8, 10, 10]"
    unfolding s(2) six by simp
  from s(3) have b: "map unat (lookups source (calls s)) = [6, 6, 8, 8, 10, 10]"
    unfolding six by simp
  from s(4) [rule_format, of 1]
  have c: "lookups source (calls s) ! (2 * 1) = lookups source (calls s) ! (2 * 1 + 1)"
    by simp
  from s(5) [rule_format, of 1]
  have d: "6 + word_of_nat 1 \<notin> set (lookups source (calls s))"
    by simp
  show ?thesis
    by (rule exI [of _ s]) (intro conjI s(1) a b c d)
qed

lemma edgecloud_source_in_range:
  assumes "i < unat (nWifis::u32)"
  shows "unat (edgecloud_source nWifis i) \<le> 2 * unat nWifis - 1"
    and "unat (edgecloud_source nWifis i) < unat nWifis * (2 + unat nStas)"
proof -
  show le: "unat (edgecloud_source nWifis i) \<le> 2 * unat nWifis - 1"
    unfolding edgecloud_source_def using assms by (rule source_bound)
  have "2 * unat nWifis - 1 < unat nWifis * (2 + unat nStas)"
    using assms by (simp add: algebra_simps)
  with le show "unat (edgecloud_source nWifis i) < unat nWifis * (2 + unat nStas)"
    by simp
qed

lemma edgecloud_sink_in_range:
  assumes "j < unat (nWifis::u32) * unat nStas"
  shows "unat (edgecloud_sink nWifis j) \<le> unat nWifis * (2 + unat nStas) - 1"
    and "unat (edgecloud_sink nWifis j) < unat nWifis * (2 + unat nStas)"
proof -
  have "unat (edgecloud_sink nWifis j) \<le> 2 * unat nWifis + j"
    unfolding edgecloud_sink_def by (rule sink_bound)
  with assms show lt: "unat (edgecloud_sink nWifis j) < unat nWifis * (2 + unat nStas)"
    by (simp add: algebra_simps)
  then show "unat (edgecloud_sink nWifis j) \<le> unat nWifis * (2 + unat nStas) - 1"
    by simp
qed

text \<open>
  C9. For every value of the flags (so for every \<open>nWifis \<ge> 1\<close> and \<open>nStas \<ge> 0\<close>) the run of
  \<^verbatim>\<open>edgecloud_Stream2\<close> completes: no lookup fails. It has created
  \<open>nWifis * (2 + nStas)\<close> nodes, every source index it looks up is at most
  \<open>2 * nWifis - 1\<close>, every sink index is at most \<open>nWifis * (2 + nStas) - 1\<close>, and all of them
  are below the number of nodes.
\<close>

theorem edgecloud_indices_in_range:
  "\<exists>s. edgecloud_main nWifis_flag nStas_flag = Some (0, s) \<and>
     (let nWifis = AddValue 6 nWifis_flag; nStas = AddValue 4 nStas_flag in
       length (NodeList s) = unat nWifis * (2 + unat nStas) \<and>
       (\<forall>n \<in> set (lookups source (calls s)).
          unat n \<le> 2 * unat nWifis - 1 \<and> unat n < length (NodeList s)) \<and>
       (\<forall>n \<in> set (lookups sink (calls s)).
          unat n \<le> unat nWifis * (2 + unat nStas) - 1 \<and> unat n < length (NodeList s)))"
proof -
  let ?n = "AddValue 6 nWifis_flag" and ?c = "AddValue 4 nStas_flag"
  let ?s = "edgecloud_final ?n ?c"
  have run: "edgecloud_main nWifis_flag nStas_flag = Some (0, ?s)"
    by (rule edgecloud_main_closed)
  have len: "length (NodeList ?s) = unat ?n * (2 + unat ?c)"
    by (rule length_edgecloud_final)
  have src: "\<forall>n \<in> set (lookups source (calls ?s)).
      unat n \<le> 2 * unat ?n - 1 \<and> unat n < length (NodeList ?s)"
    unfolding len lookups_edgecloud_final(1)
    using edgecloud_source_in_range(1) [of _ ?n] edgecloud_source_in_range(2) [of _ ?n ?c]
    by auto
  have snk: "\<forall>n \<in> set (lookups sink (calls ?s)).
      unat n \<le> unat ?n * (2 + unat ?c) - 1 \<and> unat n < length (NodeList ?s)"
    unfolding len lookups_edgecloud_final(2)
    using edgecloud_sink_in_range [of _ ?n ?c] by auto
  show ?thesis
    unfolding Let_def by (rule exI [of _ ?s]) (intro conjI run len src snk)
qed

theorem edgecloud_indices_in_range_witness:
  "\<exists>s. edgecloud_main None None = Some (0, s) \<and> length (NodeList s) = 36 \<and>
     10 \<in> set (lookups source (calls s)) \<and> unat (10::u32) \<le> 2 * 6 - 1 \<and>
     unat (10::u32) < length (NodeList s) \<and>
     35 \<in> set (lookups sink (calls s)) \<and> unat (35::u32) \<le> 6 * (2 + 4) - 1 \<and>
     unat (35::u32) < length (NodeList s)"
proof -
  have v: "AddValue 6 None = (6::u32)" "AddValue 4 None = (4::u32)"
    by (simp_all add: AddValue_def)
  have u: "unat (6::u32) = 6" "unat (4::u32) = 4"
    by simp_all
  obtain s where s: "edgecloud_main None None = Some (0, s)"
      "length (NodeList s) = 6 * (2 + 4)"
      "\<forall>n \<in> set (lookups source (calls s)). unat n \<le> 2 * 6 - 1 \<and> unat n < length (NodeList s)"
      "\<forall>n \<in> set (lookups sink (calls s)). unat n \<le> 6 * (2 + 4) - 1 \<and> unat n < length (NodeList s)"
    using edgecloud_indices_in_range [of None None] unfolding Let_def v u by blast
  from s(1) have final: "s = edgecloud_final 6 4"
    by (simp add: edgecloud_main_closed v)
  have "edgecloud_source 6 4 \<in> set (lookups source (calls s))"
    unfolding final lookups_edgecloud_final(1) u set_map by (rule imageI) simp
  then have a: "10 \<in> set (lookups source (calls s))"
    by (simp add: edgecloud_source_def)
  have "edgecloud_sink 6 23 \<in> set (lookups sink (calls s))"
    unfolding final lookups_edgecloud_final(2) u set_map by (rule imageI) simp
  then have b: "35 \<in> set (lookups sink (calls s))"
    by (simp add: edgecloud_sink_def)
  from s(3) a have c: "unat (10::u32) \<le> 2 * 6 - 1 \<and> unat (10::u32) < length (NodeList s)"
    by (rule bspec)
  from s(4) b have d: "unat (35::u32) \<le> 6 * (2 + 4) - 1 \<and> unat (35::u32) < length (NodeList s)"
    by (rule bspec)
  from s(2) have e: "length (NodeList s) = 36"
    by simp
  from c d show ?thesis
    by (intro exI [of _ s] conjI s(1) e a b) simp_all
qed

subsection \<open>Addressing\<close>

lemma address_plan_simps [simp]:
  "address_plan [] = []"
  "address_plan (xs @ ys) = address_plan xs @ address_plan ys"
  "address_plan (c # cs) = addressing c @ address_plan cs"
  by (simp_all add: address_plan_def)

lemma address_plan_concat: "address_plan (concat xss) = concat (map address_plan xss)"
  by (induction xss) simp_all

lemma addressing_simps [simp]:
  "addressing (SetBase b m) = [Inl (b, m)]"
  "addressing (Assign d) = [Inr (fst d)]"
  "addressing NewNetwork = []"
  "addressing (Add v) = []"
  "addressing PopulateRoutingTables = []"
  "addressing (NodeList_GetNode r n) = []"
  "addressing (EnablePcap a) = []"
  "addressing (EnablePcapDevices d) = []"
  "addressing (EnablePcapAll p) = []"
  "addressing (CreateFileStream p) = []"
  "addressing (AnimationInterface p) = []"
  "addressing (Simulator_Stop t) = []"
  "addressing Simulator_Run = []"
  "addressing Simulator_Destroy = []"
  by (simp_all add: addressing_def)

lemma concat_singletons: "concat (map (\<lambda>i. [x]) xs) = replicate (length xs) x"
  by (induction xs) simp_all

lemma address_plan_edgecloud_positions [simp]: "address_plan (edgecloud_positions n) = []"
  by (simp add: address_plan_def edgecloud_positions_def comp_def concat_Nil)

lemma address_plan_wifi_p2p_positions [simp]: "address_plan (wifi_p2p_positions n) = []"
  by (simp add: address_plan_def wifi_p2p_positions_def comp_def concat_Nil)

lemma address_plan_edgecloud_iteration [simp]:
  "address_plan (edgecloud_iteration_calls nWifis nStas i) = []"
  by (simp add: edgecloud_iteration_calls_def address_plan_concat comp_def concat_Nil)

lemma address_plan_edgecloud_final:
  "address_plan (calls (edgecloud_final nWifis nStas)) =
     [Inl (''192.168.0.0'', ''255.255.255.0''), Inr CsmaHelper,
      Inl (''172.16.0.0'', ''255.255.255.0'')] @
     replicate (unat nWifis) (Inr PointToPointHelper) @
     [Inl (''10.0.0.0'', ''255.255.255.0'')] @
     replicate (unat nWifis) (Inr InfraWifi)"
  by (simp add: edgecloud_final_def address_plan_concat comp_def concat_Nil concat_singletons
      map_replicate_const)

lemma address_plan_wifi_p2p_constructed:
  "address_plan (calls (wifi_p2p_constructed backboneNodes infraNodes)) =
     [Inl (''192.168.0.0'', ''255.255.255.0''), Inr AdhocWifi,
      Inl (''172.16.0.0'', ''255.255.255.0'')] @
     replicate (unat backboneNodes) (Inr PointToPointHelper) @
     [Inl (''10.0.0.0'', ''255.255.255.0'')] @
     replicate (unat backboneNodes) (Inr InfraWifi)"
  by (simp add: wifi_p2p_constructed_def address_plan_concat comp_def concat_Nil
      concat_singletons map_replicate_const)

lemma address_plan_wifi_p2p_final:
  "address_plan (calls (wifi_p2p_final backboneNodes infraNodes lanNodes)) =
     address_plan (calls (wifi_p2p_constructed backboneNodes infraNodes))"
  by (simp add: wifi_p2p_final_def Let_def)

lemma wifi_p2p_main_Some:
  assumes "wifi_p2p_main backboneNodes_flag infraNodes_flag lanNodes_flag = Some (status, s)"
  shows "status = 0"
    and "s = wifi_p2p_final (AddValue 3 backboneNodes_flag) (AddValue 2 infraNodes_flag)
               (AddValue 1 lanNodes_flag)"
  using assms by (simp_all add: wifi_p2p_main_closed Let_def split: if_splits)

lemma wifi_p2p_main_default:
  "wifi_p2p_main None None None = Some (0, wifi_p2p_final 3 2 1)"
  by (simp add: wifi_p2p_main_closed AddValue_def)

text \<open>
  C4. Each program sets exactly three address bases, all with mask \<^verbatim>\<open>255.255.255.0\<close>, and
  assigns the devices of one kind of link under each, in this order:
  \<^verbatim>\<open>192.168.0.0\<close> for the backbone devices, \<^verbatim>\<open>172.16.0.0\<close> for the point-to-point devices of
  the wired branch links (one \<^verbatim>\<open>Assign\<close> per backbone node), and \<^verbatim>\<open>10.0.0.0\<close> for the devices
  of the wireless access networks (one \<^verbatim>\<open>Assign\<close> per backbone node). This holds for every
  value of the flags: for every run of \<^verbatim>\<open>edgecloud_Stream2\<close>, for the construction sections
  of \<^verbatim>\<open>wifi_p2p\<close>, and for every run of \<^verbatim>\<open>wifi_p2p\<close> that completes.
\<close>

theorem address_bases_by_link_type:
  "(\<exists>s. edgecloud_main nWifis_flag nStas_flag = Some (0, s) \<and>
      address_plan (calls s) =
        [Inl (''192.168.0.0'', ''255.255.255.0''), Inr CsmaHelper,
         Inl (''172.16.0.0'', ''255.255.255.0'')] @
        replicate (unat (AddValue 6 nWifis_flag)) (Inr PointToPointHelper) @
        [Inl (''10.0.0.0'', ''255.255.255.0'')] @
        replicate (unat (AddValue 6 nWifis_flag)) (Inr InfraWifi)) \<and>
   (\<exists>d s. wifi_p2p_construct backboneNodes infraNodes = Some (d, s) \<and>
      address_plan (calls s) =
        [Inl (''192.168.0.0'', ''255.255.255.0''), Inr AdhocWifi,
         Inl (''172.16.0.0'', ''255.255.255.0'')] @
        replicate (unat backboneNodes) (Inr PointToPointHelper) @
        [Inl (''10.0.0.0'', ''255.255.255.0'')] @
        replicate (unat backboneNodes) (Inr InfraWifi)) \<and>
   (\<forall>status s. wifi_p2p_main backboneNodes_flag infraNodes_flag lanNodes_flag = Some (status, s) \<longrightarrow>
      address_plan (calls s) =
        [Inl (''192.168.0.0'', ''255.255.255.0''), Inr AdhocWifi,
         Inl (''172.16.0.0'', ''255.255.255.0'')] @
        replicate (unat (AddValue 3 backboneNodes_flag)) (Inr PointToPointHelper) @
        [Inl (''10.0.0.0'', ''255.255.255.0'')] @
        replicate (unat (AddValue 3 backboneNodes_flag)) (Inr InfraWifi))"
proof (intro conjI allI impI)
  show "\<exists>s. edgecloud_main nWifis_flag nStas_flag = Some (0, s) \<and>
      address_plan (calls s) =
        [Inl (''192.168.0.0'', ''255.255.255.0''), Inr CsmaHelper,
         Inl (''172.16.0.0'', ''255.255.255.0'')] @
        replicate (unat (AddValue 6 nWifis_flag)) (Inr PointToPointHelper) @
        [Inl (''10.0.0.0'', ''255.255.255.0'')] @
        replicate (unat (AddValue 6 nWifis_flag)) (Inr InfraWifi)"
    by (intro exI conjI, rule edgecloud_main_closed, rule address_plan_edgecloud_final)
  show "\<exists>d s. wifi_p2p_construct backboneNodes infraNodes = Some (d, s) \<and>
      address_plan (calls s) =
        [Inl (''192.168.0.0'', ''255.255.255.0''), Inr AdhocWifi,
         Inl (''172.16.0.0'', ''255.255.255.0'')] @
        replicate (unat backboneNodes) (Inr PointToPointHelper) @
        [Inl (''10.0.0.0'', ''255.255.255.0'')] @
        replicate (unat backboneNodes) (Inr InfraWifi)"
    by (intro exI conjI, rule wifi_p2p_construct_closed, rule address_plan_wifi_p2p_constructed)
next
  fix status s
  assume "wifi_p2p_main backboneNodes_flag infraNodes_flag lanNodes_flag = Some (status, s)"
  then have "s = wifi_p2p_final (AddValue 3 backboneNodes_flag) (AddValue 2 infraNodes_flag)
               (AddValue 1 lanNodes_flag)"
    by (rule wifi_p2p_main_Some)
  then show "address_plan (calls s) =
        [Inl (''192.168.0.0'', ''255.255.255.0''), Inr AdhocWifi,
         Inl (''172.16.0.0'', ''255.255.255.0'')] @
        replicate (unat (AddValue 3 backboneNodes_flag)) (Inr PointToPointHelper) @
        [Inl (''10.0.0.0'', ''255.255.255.0'')] @
        replicate (unat (AddValue 3 backboneNodes_flag)) (Inr InfraWifi)"
    by (simp only: address_plan_wifi_p2p_final address_plan_wifi_p2p_constructed)
qed

theorem address_bases_by_link_type_witness:
  "wifi_p2p_main None None None = Some (0, wifi_p2p_final 3 2 1) \<and>
   address_plan (calls (wifi_p2p_final 3 2 1)) =
     [Inl (''192.168.0.0'', ''255.255.255.0''), Inr AdhocWifi,
      Inl (''172.16.0.0'', ''255.255.255.0''),
      Inr PointToPointHelper, Inr PointToPointHelper, Inr PointToPointHelper,
      Inl (''10.0.0.0'', ''255.255.255.0''),
      Inr InfraWifi, Inr InfraWifi, Inr InfraWifi]"
proof -
  have v: "AddValue 3 None = (3::u32)"
    by (simp add: AddValue_def)
  have u: "unat (3::u32) = 3"
    by simp
  have three: "replicate 3 x = [x, x, x]" for x :: "string \<times> string + link"
    by (simp add: numeral_3_eq_3)
  from address_bases_by_link_type [of None None 3 2 None None None]
  have "\<forall>status s. wifi_p2p_main None None None = Some (status, s) \<longrightarrow>
      address_plan (calls s) =
        [Inl (''192.168.0.0'', ''255.255.255.0''), Inr AdhocWifi,
         Inl (''172.16.0.0'', ''255.255.255.0'')] @
        replicate (unat (AddValue 3 None)) (Inr PointToPointHelper) @
        [Inl (''10.0.0.0'', ''255.255.255.0'')] @
        replicate (unat (AddValue 3 None)) (Inr InfraWifi)"
    by (elim conjE)
  from this [rule_format, OF wifi_p2p_main_default] show ?thesis
    unfolding v u three by (simp add: wifi_p2p_main_default)
qed

subsection \<open>The node lookups of wifi\_p2p\<close>

lemma lookups_wifi_p2p_positions [simp]: "lookups r (wifi_p2p_positions n) = []"
  by (simp add: lookups_def wifi_p2p_positions_def comp_def concat_Nil)

lemma lookups_wifi_p2p_constructed:
  "lookups r (calls (wifi_p2p_constructed backboneNodes infraNodes)) = []"
  by (simp add: wifi_p2p_constructed_def lookups_concat comp_def concat_Nil)

lemma lookups_wifi_p2p_final:
  "lookups source (calls (wifi_p2p_final backboneNodes infraNodes lanNodes)) =
     [backboneNodes + 2]"
  "lookups sink (calls (wifi_p2p_final backboneNodes infraNodes lanNodes)) =
     [backboneNodes + backboneNodes * lanNodes]"
  by (simp_all add: wifi_p2p_final_def Let_def lookups_wifi_p2p_constructed)

lemma wifi_p2p_main_None:
  "(wifi_p2p_main backboneNodes_flag infraNodes_flag lanNodes_flag = None) =
     (let backboneNodes = AddValue 3 backboneNodes_flag;
          infraNodes = AddValue 2 infraNodes_flag;
          lanNodes = AddValue 1 lanNodes_flag;
          created = unat backboneNodes * (2 + unat infraNodes)
      in created \<le> unat (backboneNodes + 2) \<or>
         created \<le> unat (backboneNodes + backboneNodes * lanNodes))"
  by (simp add: wifi_p2p_main_closed Let_def not_less)

text \<open>
  C2. Neither program checks its parameters before it looks nodes up by index:
  \<^verbatim>\<open>wifi_p2p\<close> creates \<open>backboneNodes * (2 + infraNodes)\<close> nodes and then fails exactly when
  \<open>firstNodeIndex = backboneNodes + 2\<close> or
  \<open>lastNodeIndex = backboneNodes + backboneNodes * lanNodes\<close> is not below that number, and
  the application loop of \<^verbatim>\<open>edgecloud_Stream2\<close>, run on a node list that is too short (here
  the empty one), fails at its first lookup. With \<^verbatim>\<open>backboneNodes = 1\<close>, \<^verbatim>\<open>infraNodes = 1\<close>
  and \<^verbatim>\<open>lanNodes = 1\<close>, \<^verbatim>\<open>wifi_p2p\<close> creates 3 nodes, \<open>firstNodeIndex\<close> is 3, and the
  lookup is outside the node list.
\<close>

theorem wifi_p2p_lookup_unchecked:
  "(let backboneNodes = AddValue 3 backboneNodes_flag;
        infraNodes = AddValue 2 infraNodes_flag;
        lanNodes = AddValue 1 lanNodes_flag;
        created = unat backboneNodes * (2 + unat infraNodes)
    in map_option (\<lambda>(d, s). length (NodeList s)) (wifi_p2p_construct backboneNodes infraNodes)
         = Some created \<and>
       (wifi_p2p_main backboneNodes_flag infraNodes_flag lanNodes_flag = None) =
         (created \<le> unat (backboneNodes + 2) \<or>
          created \<le> unat (backboneNodes + backboneNodes * lanNodes))) \<and>
   map_option (\<lambda>(d, s). length (NodeList s)) (wifi_p2p_construct 1 1) = Some 3 \<and>
   unat (1 + 2 :: u32) = 3 \<and>
   wifi_p2p_main (Some 1) (Some 1) (Some 1) = None \<and>
   edgecloud_applications 1 1 1 initial = None"
proof -
  have general: "map_option (\<lambda>(d, s). length (NodeList s)) (wifi_p2p_construct b i)
      = Some (unat b * (2 + unat i))" for b i
    by (simp add: wifi_p2p_construct_closed length_wifi_p2p_constructed)
  have edge: "edgecloud_applications 1 1 1 initial = None"
    by (simp add: edgecloud_applications_def for_u32.simps [of 0] edgecloud_outer_body_def
        GetNode_def initial_def)
  have "wifi_p2p_main (Some 1) (Some 1) (Some 1) = None"
    by (simp add: wifi_p2p_main_None AddValue_def)
  with edge show ?thesis
    using general [of 1 1] by (simp add: Let_def general wifi_p2p_main_None [unfolded Let_def])
qed

theorem wifi_p2p_lookup_unchecked_witness:
  "wifi_p2p_main (Some 1) (Some 1) (Some 1) = None \<and> wifi_p2p_main None None None \<noteq> None"
proof -
  have v: "AddValue 3 None = (3::u32)" "AddValue 2 None = (2::u32)" "AddValue 1 None = (1::u32)"
    by (simp_all add: AddValue_def)
  from wifi_p2p_lookup_unchecked [of None None None]
  have "(wifi_p2p_main None None None = None) =
      (unat (3::u32) * (2 + unat (2::u32)) \<le> unat (3 + 2 :: u32) \<or>
       unat (3::u32) * (2 + unat (2::u32)) \<le> unat (3 + 3 * 1 :: u32))"
    unfolding Let_def v by (elim conjE)
  then have "wifi_p2p_main None None None \<noteq> None"
    by simp
  with wifi_p2p_lookup_unchecked [of None None None] show ?thesis
    by (elim conjE) (intro conjI)
qed

text \<open>
  C10. Run with no flag (\<^verbatim>\<open>backboneNodes = 3\<close>, \<^verbatim>\<open>infraNodes = 2\<close>, \<^verbatim>\<open>lanNodes = 1\<close>),
  \<^verbatim>\<open>wifi_p2p\<close> completes; the nodes 0 to 2 are the backbone nodes, 3 to 5 the LAN nodes (one
  per backbone node) and 6 to 11 the stations. The echo server is installed on node
  \<open>firstNodeIndex = backboneNodes + 2 = 5\<close>, the LAN node of the last backbone node and not
  the first node created outside the backbone (node 3); the echo client is installed on
  node \<open>lastNodeIndex = backboneNodes + backboneNodes * lanNodes = 6\<close>, the first station
  and not the last node created (node 11).
\<close>

theorem wifi_p2p_default_nodes:
  "\<exists>s. wifi_p2p_main None None None = Some (0, s) \<and>
     NodeList s =
       [in_backbone, in_backbone, in_backbone, in_branch 0, in_branch 1, in_branch 2,
        in_stas 0, in_stas 0, in_stas 1, in_stas 1, in_stas 2, in_stas 2] \<and>
     lookups source (calls s) = [3 + 2] \<and>
     lookups sink (calls s) = [3 + 3 * 1] \<and>
     map (\<lambda>a. (is_server a, node a)) (applications s) = [(True, 5), (False, 6)] \<and>
     NodeList s ! 5 = in_branch 2 \<and> NodeList s ! 3 = in_branch 0 \<and>
     NodeList s ! 6 = in_stas 0 \<and> length (NodeList s) - 1 = 11"
proof -
  have u: "unat (3::u32) = 3" "unat (2::u32) = 2"
    by simp_all
  have three: "[0..<3] = [0, 1, 2::nat]"
    by code_simp
  have r: "replicate 3 x = [x, x, x]" "replicate 2 x = [x, x]" for x :: origin
    by (simp_all add: numeral_3_eq_3 numeral_2_eq_2)
  have apps: "map (\<lambda>a. (is_server a, node a)) (applications (wifi_p2p_final 3 2 1)) =
      [(True, 5), (False, 6)]"
    by (simp add: wifi_p2p_final_def Let_def is_server_def echo_server_def wifi_p2p_client_def)
  have nodes: "NodeList (wifi_p2p_final 3 2 1) =
       [in_backbone, in_backbone, in_backbone, in_branch 0, in_branch 1, in_branch 2,
        in_stas 0, in_stas 0, in_stas 1, in_stas 1, in_stas 2, in_stas 2]"
    by (simp add: wifi_p2p_final_def wifi_p2p_constructed_def Let_def u three r)
  have look: "lookups source (calls (wifi_p2p_final 3 2 1)) = [3 + 2]"
      "lookups sink (calls (wifi_p2p_final 3 2 1)) = [3 + 3 * 1]"
    by (simp_all only: lookups_wifi_p2p_final)
  show ?thesis
    by (rule exI [of _ "wifi_p2p_final 3 2 1"])
       (simp add: wifi_p2p_main_default apps nodes look)
qed

subsection \<open>Simulator calls, schedules and loop counts\<close>

lemma is_Simulator_simps [simp]:
  "is_Simulator (SetBase b m) = False"
  "is_Simulator (Assign d) = False"
  "is_Simulator NewNetwork = False"
  "is_Simulator (Add v) = False"
  "is_Simulator PopulateRoutingTables = False"
  "is_Simulator (NodeList_GetNode r n) = False"
  "is_Simulator (EnablePcap a) = False"
  "is_Simulator (EnablePcapDevices d) = False"
  "is_Simulator (EnablePcapAll p) = False"
  "is_Simulator (CreateFileStream p) = False"
  "is_Simulator (AnimationInterface p) = False"
  "is_Simulator (Simulator_Stop t) = True"
  "is_Simulator Simulator_Run = True"
  "is_Simulator Simulator_Destroy = True"
  by (simp_all add: is_Simulator_def)

lemma is_Add_simps [simp]:
  "is_Add (SetBase b m) = False"
  "is_Add (Assign d) = False"
  "is_Add NewNetwork = False"
  "is_Add (Add v) = True"
  "is_Add PopulateRoutingTables = False"
  "is_Add (NodeList_GetNode r n) = False"
  "is_Add (EnablePcap a) = False"
  "is_Add (EnablePcapDevices d) = False"
  "is_Add (EnablePcapAll p) = False"
  "is_Add (CreateFileStream p) = False"
  "is_Add (AnimationInterface p) = False"
  "is_Add (Simulator_Stop t) = False"
  "is_Add Simulator_Run = False"
  "is_Add Simulator_Destroy = False"
  by (simp_all add: is_Add_def)

lemma filter_positions [simp]:
  "filter is_Simulator (edgecloud_positions n) = []"
  "filter is_Simulator (wifi_p2p_positions n) = []"
  "filter (\<lambda>c. c = NewNetwork) (edgecloud_positions n) = []"
  "filter (\<lambda>c. c = NewNetwork) (wifi_p2p_positions n) = []"
  "filter is_Add (edgecloud_positions n) = edgecloud_positions n"
  "filter is_Add (wifi_p2p_positions n) = wifi_p2p_positions n"
  "length (edgecloud_positions n) = n"
  "length (wifi_p2p_positions n) = n"
  by (simp_all add: edgecloud_positions_def wifi_p2p_positions_def filter_map comp_def)

lemma filter_edgecloud_iteration [simp]:
  "filter is_Simulator (edgecloud_iteration_calls nWifis nStas i) = []"
  "filter (\<lambda>c. c = NewNetwork) (edgecloud_iteration_calls nWifis nStas i) = []"
  "filter is_Add (edgecloud_iteration_calls nWifis nStas i) = []"
  by (simp_all add: edgecloud_iteration_calls_def filter_concat comp_def concat_Nil)

lemma simulator_edgecloud_final:
  "filter is_Simulator (calls (edgecloud_final nWifis nStas)) =
     [Simulator_Stop None, Simulator_Run, Simulator_Destroy]"
  by (simp add: edgecloud_final_def filter_concat comp_def concat_Nil)

lemma simulator_wifi_p2p_final:
  "filter is_Simulator (calls (wifi_p2p_final backboneNodes infraNodes lanNodes)) =
     [Simulator_Stop (Some (Seconds 10)), Simulator_Run, Simulator_Destroy]"
  by (simp add: wifi_p2p_final_def wifi_p2p_constructed_def Let_def filter_concat comp_def
      concat_Nil)

lemma last_three:
  assumes "take 3 (rev xs) = [c, b, a]"
  shows "drop (length xs - 3) xs = [a, b, c]"
proof -
  have "rev (drop (length xs - 3) xs) = [c, b, a]"
    using assms by (simp only: take_rev)
  then have "rev (rev (drop (length xs - 3) xs)) = rev [c, b, a]"
    by (rule arg_cong)
  then show ?thesis
    by simp
qed

lemma last_edgecloud_final:
  "drop (length (calls (edgecloud_final nWifis nStas)) - 3) (calls (edgecloud_final nWifis nStas)) =
     [Simulator_Stop None, Simulator_Run, Simulator_Destroy]"
  by (rule last_three) (simp add: edgecloud_final_def)

lemma last_wifi_p2p_final:
  "drop (length (calls (wifi_p2p_final backboneNodes infraNodes lanNodes)) - 3)
     (calls (wifi_p2p_final backboneNodes infraNodes lanNodes)) =
     [Simulator_Stop (Some (Seconds 10)), Simulator_Run, Simulator_Destroy]"
  by (rule last_three) (simp add: wifi_p2p_final_def Let_def)

text \<open>
  C5. Each program stops, runs and destroys the simulator, in this order and as its last
  three framework calls, and then leaves \<^verbatim>\<open>main\<close> with status 0: \<^verbatim>\<open>edgecloud_Stream2\<close> calls
  \<^verbatim>\<open>Simulator::Stop ()\<close> with no time, for every value of its flags; \<^verbatim>\<open>wifi_p2p\<close> calls
  \<^verbatim>\<open>Simulator::Stop (Seconds (10.0))\<close> in every run that completes. A run of \<^verbatim>\<open>wifi_p2p\<close>
  either completes with status 0 or ends inside a failing framework lookup: the programs
  have no exit of their own.
\<close>

theorem simulator_stop_run_destroy:
  "(\<exists>s. edgecloud_main nWifis_flag nStas_flag = Some (0, s) \<and>
      filter is_Simulator (calls s) = [Simulator_Stop None, Simulator_Run, Simulator_Destroy] \<and>
      drop (length (calls s) - 3) (calls s) =
        [Simulator_Stop None, Simulator_Run, Simulator_Destroy]) \<and>
   (\<forall>status s. wifi_p2p_main backboneNodes_flag infraNodes_flag lanNodes_flag = Some (status, s) \<longrightarrow>
      status = 0 \<and>
      filter is_Simulator (calls s) =
        [Simulator_Stop (Some (Seconds 10.0)), Simulator_Run, Simulator_Destroy] \<and>
      drop (length (calls s) - 3) (calls s) =
        [Simulator_Stop (Some (Seconds 10.0)), Simulator_Run, Simulator_Destroy]) \<and>
   (wifi_p2p_main backboneNodes_flag infraNodes_flag lanNodes_flag = None \<or>
    (\<exists>s. wifi_p2p_main backboneNodes_flag infraNodes_flag lanNodes_flag = Some (0, s)))"
proof (intro conjI allI impI)
  show "\<exists>s. edgecloud_main nWifis_flag nStas_flag = Some (0, s) \<and>
      filter is_Simulator (calls s) = [Simulator_Stop None, Simulator_Run, Simulator_Destroy] \<and>
      drop (length (calls s) - 3) (calls s) =
        [Simulator_Stop None, Simulator_Run, Simulator_Destroy]"
    by (intro exI conjI, rule edgecloud_main_closed, rule simulator_edgecloud_final,
        rule last_edgecloud_final)
  show "wifi_p2p_main backboneNodes_flag infraNodes_flag lanNodes_flag = None \<or>
    (\<exists>s. wifi_p2p_main backboneNodes_flag infraNodes_flag lanNodes_flag = Some (0, s))"
    by (simp add: wifi_p2p_main_closed Let_def)
next
  fix status s
  assume run: "wifi_p2p_main backboneNodes_flag infraNodes_flag lanNodes_flag = Some (status, s)"
  from run show "status = 0"
    by (rule wifi_p2p_main_Some)
  from run have s: "s = wifi_p2p_final (AddValue 3 backboneNodes_flag)
      (AddValue 2 infraNodes_flag) (AddValue 1 lanNodes_flag)"
    by (rule wifi_p2p_main_Some)
  show "filter is_Simulator (calls s) =
      [Simulator_Stop (Some (Seconds 10.0)), Simulator_Run, Simulator_Destroy]"
    unfolding s by (simp add: simulator_wifi_p2p_final)
  show "drop (length (calls s) - 3) (calls s) =
      [Simulator_Stop (Some (Seconds 10.0)), Simulator_Run, Simulator_Destroy]"
    unfolding s by (simp add: last_wifi_p2p_final)
qed

theorem simulator_stop_run_destroy_witness:
  "\<exists>s. wifi_p2p_main None None None = Some (0, s) \<and>
     filter is_Simulator (calls s) =
       [Simulator_Stop (Some (Seconds 10.0)), Simulator_Run, Simulator_Destroy] \<and>
     drop (length (calls s) - 3) (calls s) =
       [Simulator_Stop (Some (Seconds 10.0)), Simulator_Run, Simulator_Destroy]"
proof -
  from simulator_stop_run_destroy [of None None None None None]
  have "\<forall>status s. wifi_p2p_main None None None = Some (status, s) \<longrightarrow>
      status = 0 \<and>
      filter is_Simulator (calls s) =
        [Simulator_Stop (Some (Seconds 10.0)), Simulator_Run, Simulator_Destroy] \<and>
      drop (length (calls s) - 3) (calls s) =
        [Simulator_Stop (Some (Seconds 10.0)), Simulator_Run, Simulator_Destroy]"
    by (elim conjE)
  from this [rule_format, OF wifi_p2p_main_default] show ?thesis
    by (intro exI [of _ "wifi_p2p_final 3 2 1"] conjI wifi_p2p_main_default) simp_all
qed

lemma concat_replicate_mult:
  "concat (map (\<lambda>i. concat (replicate c xs)) [0..<n]) = concat (replicate (n * c) xs)"
proof (induction n)
  case 0
  show ?case by simp
next
  case (Suc n)
  have "replicate (Suc n * c) xs = replicate (n * c) xs @ replicate c xs"
    by (simp add: replicate_add [symmetric] add.commute)
  with Suc show ?case by simp
qed

lemma schedule_edgecloud_iteration:
  "map schedule (edgecloud_iteration_apps nWifis nStas i) =
     concat (replicate (unat nStas)
       [(True, Some (Seconds 1), None), (False, Some (Seconds 2), None)])"
  by (simp add: edgecloud_iteration_apps_def map_concat comp_def schedule_def is_server_def
      echo_server_def edgecloud_client_def map_replicate_const)

lemma schedule_edgecloud_final:
  "map schedule (applications (edgecloud_final nWifis nStas)) =
     concat (replicate (unat nWifis * unat nStas)
       [(True, Some (Seconds 1), None), (False, Some (Seconds 2), None)])"
  by (simp add: edgecloud_final_def map_concat comp_def schedule_edgecloud_iteration
      concat_replicate_mult)

lemma schedule_wifi_p2p_final:
  "map schedule (applications (wifi_p2p_final backboneNodes infraNodes lanNodes)) =
     [(True, Some (Seconds 1), Some (Seconds 10)), (False, Some (Seconds 2), Some (Seconds 10))]"
  by (simp add: wifi_p2p_final_def Let_def schedule_def is_server_def echo_server_def
      wifi_p2p_client_def)

text \<open>
  C6. The start and stop times of the echo applications are literals of the programs. In
  \<^verbatim>\<open>edgecloud_Stream2\<close>, for every value of the flags, the applications are installed in
  pairs, a server started at 1.0 s and a client started at 2.0 s, neither with a stop time.
  In \<^verbatim>\<open>wifi_p2p\<close>, in every run that completes, there is one server, started at 1.0 s, and
  one client, started at 2.0 s, both stopped at 10.0 s. The pair \<open>(is_server, start, stop)\<close> is
  listed for each application, in order of installation.
\<close>

theorem echo_schedules:
  "(\<exists>s. edgecloud_main nWifis_flag nStas_flag = Some (0, s) \<and>
      map schedule (applications s) =
        concat (replicate (unat (AddValue 6 nWifis_flag) * unat (AddValue 4 nStas_flag))
          [(True, Some (Seconds 1.0), None), (False, Some (Seconds 2.0), None)])) \<and>
   (\<forall>status s. wifi_p2p_main backboneNodes_flag infraNodes_flag lanNodes_flag = Some (status, s) \<longrightarrow>
      map schedule (applications s) =
        [(True, Some (Seconds 1.0), Some (Seconds 10.0)),
         (False, Some (Seconds 2.0), Some (Seconds 10.0))])"
proof (intro conjI allI impI)
  show "\<exists>s. edgecloud_main nWifis_flag nStas_flag = Some (0, s) \<and>
      map schedule (applications s) =
        concat (replicate (unat (AddValue 6 nWifis_flag) * unat (AddValue 4 nStas_flag))
          [(True, Some (Seconds 1.0), None), (False, Some (Seconds 2.0), None)])"
    by (rule exI [of _ "edgecloud_final (AddValue 6 nWifis_flag) (AddValue 4 nStas_flag)"])
       (simp add: edgecloud_main_closed schedule_edgecloud_final)
next
  fix status s
  assume "wifi_p2p_main backboneNodes_flag infraNodes_flag lanNodes_flag = Some (status, s)"
  then have "s = wifi_p2p_final (AddValue 3 backboneNodes_flag)
      (AddValue 2 infraNodes_flag) (AddValue 1 lanNodes_flag)"
    by (rule wifi_p2p_main_Some)
  then show "map schedule (applications s) =
      [(True, Some (Seconds 1.0), Some (Seconds 10.0)),
       (False, Some (Seconds 2.0), Some (Seconds 10.0))]"
    by (simp add: schedule_wifi_p2p_final)
qed

theorem echo_schedules_witness:
  "\<exists>s. wifi_p2p_main None None None = Some (0, s) \<and>
     map schedule (applications s) =
       [(True, Some (Seconds 1.0), Some (Seconds 10.0)),
        (False, Some (Seconds 2.0), Some (Seconds 10.0))]"
proof -
  from echo_schedules [of None None None None None]
  have "\<forall>status s. wifi_p2p_main None None None = Some (status, s) \<longrightarrow>
      map schedule (applications s) =
        [(True, Some (Seconds 1.0), Some (Seconds 10.0)),
         (False, Some (Seconds 2.0), Some (Seconds 10.0))]"
    by (elim conjE)
  from this [rule_format, OF wifi_p2p_main_default] show ?thesis
    by (intro exI [of _ "wifi_p2p_final 3 2 1"] conjI wifi_p2p_main_default)
qed

lemma length_concat_same: "length (concat (map (\<lambda>i. xs) ys)) = length ys * length xs"
  by (induction ys) simp_all

lemma counts_edgecloud_final:
  "length (filter (\<lambda>c. c = NewNetwork) (calls (edgecloud_final nWifis nStas))) =
     unat nWifis + unat nWifis"
  "length (filter is_Add (calls (edgecloud_final nWifis nStas))) =
     unat nWifis * unat (1::u32) + unat nWifis * unat (1 + nStas)"
  by (simp_all add: edgecloud_final_def filter_concat comp_def concat_Nil concat_singletons
      length_concat_same)

lemma counts_wifi_p2p_constructed:
  "length (filter (\<lambda>c. c = NewNetwork) (calls (wifi_p2p_constructed backboneNodes infraNodes))) =
     unat backboneNodes + unat backboneNodes"
  "length (filter is_Add (calls (wifi_p2p_constructed backboneNodes infraNodes))) =
     unat backboneNodes * unat (1::u32) + unat backboneNodes * unat (1 + infraNodes)"
  by (simp_all add: wifi_p2p_constructed_def filter_concat comp_def concat_Nil concat_singletons
      length_concat_same)

lemma for_u32_total:
  assumes "\<And>i t. body i t \<noteq> None"
  shows "\<exists>t. for_u32 0 n body s = Some t"
proof -
  have "\<exists>t. for_u32 0 n body s = Some t \<and> True"
    by (rule for_u32_rule [of "\<lambda>k t. True"]) (use assms in auto)
  then show ?thesis by simp
qed

text \<open>
  C7. Every loop of the two programs is a \<^verbatim>\<open>for (uint32_t i = 0; i < n; ++i)\<close> whose bound
  \<open>n\<close> is computed from the parsed parameters before the loop starts; such a loop ends, for
  every \<open>n\<close>, unless its body fails. For every value of the flags the construction and
  application sections of \<^verbatim>\<open>edgecloud_Stream2\<close> end, with the branch loop and the wireless
  loop run \<open>nWifis\<close> times each (one \<^verbatim>\<open>NewNetwork\<close> per iteration), the position loops run
  once per branch node and \<^verbatim>\<open>infra.GetN () = uint32_t (1 + nStas)\<close> times per wireless cell
  (one \<^verbatim>\<open>Add\<close> per iteration), the outer application loop run \<open>nWifis\<close> times (one source
  lookup each) and the inner one \<open>nWifis * nStas\<close> times in all (one sink lookup each). The
  construction sections of \<^verbatim>\<open>wifi_p2p\<close> end likewise, with \<open>backboneNodes\<close> and
  \<open>infraNodes\<close> in place of \<open>nWifis\<close> and \<open>nStas\<close>; its application section has no loop.
\<close>

theorem iterations_fixed_count:
  "((\<forall>i t. body i t \<noteq> None) \<longrightarrow> (\<exists>t. for_u32 0 n body s0 = Some t)) \<and>
   (\<exists>s. edgecloud_main nWifis_flag nStas_flag = Some (0, s) \<and>
      (let nWifis = AddValue 6 nWifis_flag; nStas = AddValue 4 nStas_flag in
         length (filter (\<lambda>c. c = NewNetwork) (calls s)) = unat nWifis + unat nWifis \<and>
         length (filter is_Add (calls s)) =
           unat nWifis * unat (1::u32) + unat nWifis * unat (1 + nStas) \<and>
         length (lookups source (calls s)) = unat nWifis \<and>
         length (lookups sink (calls s)) = unat nWifis * unat nStas)) \<and>
   (\<exists>d s. wifi_p2p_construct backboneNodes infraNodes = Some (d, s) \<and>
      length (filter (\<lambda>c. c = NewNetwork) (calls s)) = unat backboneNodes + unat backboneNodes \<and>
      length (filter is_Add (calls s)) =
        unat backboneNodes * unat (1::u32) + unat backboneNodes * unat (1 + infraNodes))"
proof (intro conjI impI)
  assume "\<forall>i t. body i t \<noteq> None"
  then show "\<exists>t. for_u32 0 n body s0 = Some t"
    by (intro for_u32_total) simp
next
  let ?n = "AddValue 6 nWifis_flag" and ?c = "AddValue 4 nStas_flag"
  show "\<exists>s. edgecloud_main nWifis_flag nStas_flag = Some (0, s) \<and>
      (let nWifis = AddValue 6 nWifis_flag; nStas = AddValue 4 nStas_flag in
         length (filter (\<lambda>c. c = NewNetwork) (calls s)) = unat nWifis + unat nWifis \<and>
         length (filter is_Add (calls s)) =
           unat nWifis * unat (1::u32) + unat nWifis * unat (1 + nStas) \<and>
         length (lookups source (calls s)) = unat nWifis \<and>
         length (lookups sink (calls s)) = unat nWifis * unat nStas)"
    unfolding Let_def
    by (rule exI [of _ "edgecloud_final ?n ?c"])
       (simp only: edgecloud_main_closed counts_edgecloud_final lookups_edgecloud_final
          length_map length_upt diff_zero simp_thms)
next
  show "\<exists>d s. wifi_p2p_construct backboneNodes infraNodes = Some (d, s) \<and>
      length (filter (\<lambda>c. c = NewNetwork) (calls s)) = unat backboneNodes + unat backboneNodes \<and>
      length (filter is_Add (calls s)) =
        unat backboneNodes * unat (1::u32) + unat backboneNodes * unat (1 + infraNodes)"
    by (intro exI conjI, rule wifi_p2p_construct_closed, rule counts_wifi_p2p_constructed(1),
        rule counts_wifi_p2p_constructed(2))
qed

theorem iterations_fixed_count_witness:
  "(\<forall>i t. Some (t + unat (i::u32)) \<noteq> None) \<and>
   (\<exists>t. for_u32 0 6 (\<lambda>i t. Some (t + unat i)) 0 = Some t)"
proof -
  have total: "\<forall>i t. Some (t + unat (i::u32)) \<noteq> None"
    by simp
  have "(\<forall>i t. Some (t + unat (i::u32)) \<noteq> None) \<longrightarrow>
      (\<exists>t. for_u32 0 6 (\<lambda>i t. Some (t + unat i)) 0 = Some t)"
    by (rule iterations_fixed_count [of "\<lambda>i t. Some (t + unat i)" 6 0, THEN conjunct1])
  from this total have "\<exists>t. for_u32 0 6 (\<lambda>i t. Some (t + unat i)) 0 = Some t"
    by (rule mp)
  with total show ?thesis
    by (intro conjI)
qed

end
